theory Spec2Isabelle
  imports Main "HOL-Library.Word"
begin

section \<open>The resource manager of tpm2-abrmd (src/resource-manager.c)\<close>

text \<open>
  A shallow embedding of \<^verbatim>\<open>src/resource-manager.c\<close>. Every C function of that file
  that takes part in the processing of a command is a HOL function of the same name.
  Objects that the C code shares by pointer (the \<^verbatim>\<open>HandleMapEntry\<close> objects, which
  are referenced both by a connection's handle map and by the local array
  \<^verbatim>\<open>entries\<close>) live in an explicit heap, so that a write through one pointer is
  seen through every other pointer to the same object.

  The access broker is an external collaborator: it is a parameter of every function
  that calls it, a record of three state-passing functions over an arbitrary device
  state \<open>'b\<close>. The calls made to it and the objects handed to the sink are recorded in
  the order in which the code makes them.

  Left out: the \<^verbatim>\<open>g_debug\<close> output and the two dump functions, the reference counts
  of the connection and map objects (those of the entries are kept), the GObject
  property and class functions, and the thread that takes the commands from the
  queue one at a time.
\<close>

subsection \<open>Handles, return codes and the constants of the TPM 2.0 headers\<close>

type_synonym TPM_HANDLE = "32 word"
type_synonym TSS2_RC = "32 word"
type_synonym TPM_CC = "32 word"
type_synonym TPMS_CONTEXT = "8 word list"
type_synonym entry_ptr = nat
type_synonym conn_id = nat

text \<open>
  The header files of the TPM 2.0 software stack are not part of the sources. The
  constants below are fixed by the TPM 2.0 library specification, Part 2 (the handle
  types, the command codes and the response codes) and by the TSS system API
  (\<^verbatim>\<open>TSS2_RC_SUCCESS\<close>, \<^verbatim>\<open>TSS2_BASE_RC_GENERAL_FAILURE\<close>); \<open>HR_SHIFT\<close> and
  \<open>TPM_HT_TRANSIENT\<close> are also given by section 3 of the specification of this
  repository (the handle type is \<^verbatim>\<open>handle >> 24\<close>, and \<^verbatim>\<open>TRANSIENT\<close> is
  \<^verbatim>\<open>0x80\<close>).
\<close>

definition HR_SHIFT :: nat where
  "HR_SHIFT = 24"

definition TPM_HT_TRANSIENT :: "32 word" where
  "TPM_HT_TRANSIENT = 0x80"

definition TPM_CC_CreatePrimary :: TPM_CC where
  "TPM_CC_CreatePrimary = 0x131"

definition TPM_CC_Load :: TPM_CC where
  "TPM_CC_Load = 0x157"

definition TPM_CC_FlushContext :: TPM_CC where
  "TPM_CC_FlushContext = 0x165"

definition TPM_CC_LoadExternal :: TPM_CC where
  "TPM_CC_LoadExternal = 0x167"

definition TSS2_RC_SUCCESS :: TSS2_RC where
  "TSS2_RC_SUCCESS = 0"

definition TSS2_BASE_RC_GENERAL_FAILURE :: TSS2_RC where
  "TSS2_BASE_RC_GENERAL_FAILURE = 1"

definition TPM_RC_HANDLE :: TSS2_RC where
  "TPM_RC_HANDLE = 0x08B"

definition TPM_RC_P :: TSS2_RC where
  "TPM_RC_P = 0x040"

definition TPM_RC_1 :: TSS2_RC where
  "TPM_RC_1 = 0x100"

text \<open>
  Two constants have values that neither the sources nor the specification fix:
  \<^verbatim>\<open>TSS2_RESMGR_ERROR_LEVEL\<close>, the error level of the resource manager in
  \<^verbatim>\<open>tss2_common.h\<close> of the TSS release in use, and
  \<^verbatim>\<open>TSS2_RESMGR_RC_OBJECT_MEMORY\<close> of \<^verbatim>\<open>tabrmd.h\<close>. They are parameters of the
  functions that use them.
\<close>

record headers =
  TSS2_RESMGR_ERROR_LEVEL :: TSS2_RC
  TSS2_RESMGR_RC_OBJECT_MEMORY :: TSS2_RC

text \<open>
  \<^verbatim>\<open>#define RM_RC(rc) TSS2_RESMGR_ERROR_LEVEL + rc\<close> (line 41). The macro has no
  parentheses; at each of its uses (lines 115, 121 and 300) the argument is a constant
  or a sum of constants and the expansion is a whole expression, so it is the sum
  below.
\<close>

definition RM_RC :: "headers \<Rightarrow> TSS2_RC \<Rightarrow> TSS2_RC" where
  "RM_RC hdr rc = TSS2_RESMGR_ERROR_LEVEL hdr + rc"

text \<open>\<^verbatim>\<open>#define ENTRY_COUNT 4\<close> (line 364).\<close>

definition ENTRY_COUNT :: nat where
  "ENTRY_COUNT = 4"

subsection \<open>The objects\<close>

text \<open>
  A \<^verbatim>\<open>HandleMapEntry\<close> object: the physical handle, the virtual handle, the saved
  context and the GObject reference count.
\<close>

record HandleMapEntry =
  e_phandle :: TPM_HANDLE
  e_vhandle :: TPM_HANDLE
  e_context :: TPMS_CONTEXT
  e_refcount :: nat

text \<open>
  A \<^verbatim>\<open>HandleMap\<close>: the bindings from virtual handles to entry objects in insertion
  order, the capacity and the next virtual handle to hand out.
\<close>

record HandleMap =
  hm_table :: "(TPM_HANDLE \<times> entry_ptr) list"
  hm_max_entries :: nat
  hm_next_vhandle :: TPM_HANDLE

text \<open>
  A \<^verbatim>\<open>Tpm2Command\<close> as the accessors used by the resource manager see it: the owning
  connection, the command code, the handle count of the command attributes
  (\<^verbatim>\<open>guint8\<close>), the 32-bit value of every slot of the handle area, the handle argument
  of \<^verbatim>\<open>FlushContext\<close> and the remaining bytes.
\<close>

record Tpm2Command =
  cmd_connection :: conn_id
  cmd_code :: TPM_CC
  cmd_handle_count :: "8 word"
  cmd_handles :: "nat \<Rightarrow> TPM_HANDLE"
  cmd_flush_handle :: TPM_HANDLE
  cmd_params :: "8 word list"

record Tpm2Response =
  rsp_connection :: conn_id
  rsp_rc :: TSS2_RC
  rsp_has_handle :: bool
  rsp_handle :: TPM_HANDLE
  rsp_params :: "8 word list"

text \<open>
  The access broker (\<^verbatim>\<open>resmgr->access_broker\<close>). \<open>ab_send_command\<close> returns the
  response pointer (\<open>None\<close> is \<^verbatim>\<open>NULL\<close>) and the value stored through \<^verbatim>\<open>&rc\<close>;
  \<open>ab_context_load\<close> returns the return code and the value stored through
  \<^verbatim>\<open>&phandle\<close>; \<open>ab_context_saveflush\<close> returns the return code and the contents it
  leaves in the context buffer that it was given.
\<close>

record 'b AccessBroker =
  ab_send_command :: "'b \<Rightarrow> Tpm2Command \<Rightarrow> (Tpm2Response option \<times> TSS2_RC) \<times> 'b"
  ab_context_load :: "'b \<Rightarrow> TPMS_CONTEXT \<Rightarrow> (TSS2_RC \<times> TPM_HANDLE) \<times> 'b"
  ab_context_saveflush ::
    "'b \<Rightarrow> TPM_HANDLE \<Rightarrow> TPMS_CONTEXT \<Rightarrow> (TSS2_RC \<times> TPMS_CONTEXT) \<times> 'b"

datatype broker_call =
  SendCommand Tpm2Command
  | ContextLoad TPMS_CONTEXT
  | ContextSaveFlush TPM_HANDLE

text \<open>The \<^verbatim>\<open>g_warning\<close> calls of the file, with the values they print.\<close>

datatype warning =
  WarnHandleCount
  | WarnNoEntry TPM_HANDLE
  | WarnLoadFailed TSS2_RC
  | WarnSaveFlushFailed TPM_HANDLE TSS2_RC
  | WarnWrongCommand
  | WarnSendError TSS2_RC

text \<open>
  Everything a command can read or change: the device behind the access broker, the
  heap of entry objects with its allocation pointer, the transient handle map of every
  connection, the objects passed to \<^verbatim>\<open>sink_enqueue\<close>, the calls made to the access
  broker, and the warnings logged.
\<close>

record 'b world =
  w_tpm :: 'b
  w_heap :: "entry_ptr \<Rightarrow> HandleMapEntry"
  w_heap_next :: entry_ptr
  w_trans_map :: "conn_id \<Rightarrow> HandleMap"
  w_sink :: "Tpm2Response option list"
  w_calls :: "broker_call list"
  w_warnings :: "warning list"

text \<open>
  The ways in which the C code stops without returning: \<^verbatim>\<open>g_error\<close> aborts the
  process; an index outside an array and a read of an array element that was never
  written are undefined behaviour.
\<close>

datatype fault = Aborted | OutOfBounds | Uninitialised

text \<open>An element of \<^verbatim>\<open>HandleMapEntry *entries[ENTRY_COUNT]\<close>.\<close>

datatype slot = Uninit | Null | Ptr entry_ptr

subsection \<open>Collaborators\<close>

text \<open>\<^verbatim>\<open>g_warning\<close> appends to the log.\<close>

definition g_warning :: "warning \<Rightarrow> 'b world \<Rightarrow> 'b world" where
  "g_warning x w = w\<lparr>w_warnings := w_warnings w @ [x]\<rparr>"

text \<open>
  \<^verbatim>\<open>g_object_ref\<close> and \<^verbatim>\<open>g_object_unref\<close> of GLib on an entry object: the reference
  count goes up and down by one. An object whose count has reached 0 is released.
\<close>

definition g_object_ref :: "entry_ptr \<Rightarrow> 'b world \<Rightarrow> 'b world" where
  "g_object_ref p w =
     w\<lparr>w_heap := (w_heap w)(p := (w_heap w p)\<lparr>e_refcount := e_refcount (w_heap w p) + 1\<rparr>)\<rparr>"

definition g_object_unref :: "entry_ptr \<Rightarrow> 'b world \<Rightarrow> 'b world" where
  "g_object_unref p w =
     w\<lparr>w_heap := (w_heap w)(p := (w_heap w p)\<lparr>e_refcount := e_refcount (w_heap w p) - 1\<rparr>)\<rparr>"

text \<open>
  Modelled from the spec: \<^verbatim>\<open>handle-map-entry.c\<close> is missing. Section 3: an entry has
  the field \<open>phandle\<close>, which the worker sets.
\<close>

definition handle_map_entry_set_phandle :: "entry_ptr \<Rightarrow> TPM_HANDLE \<Rightarrow> 'b world \<Rightarrow> 'b world" where
  "handle_map_entry_set_phandle p h w =
     w\<lparr>w_heap := (w_heap w)(p := (w_heap w p)\<lparr>e_phandle := h\<rparr>)\<rparr>"

text \<open>
  Modelled from the spec: \<^verbatim>\<open>handle-map-entry.c\<close> is missing. Section 4.5, step 3: a
  new entry has the given physical and virtual handle and an empty saved context. It
  is a new object, with the one reference of its creator.
\<close>

definition handle_map_entry_new :: "TPM_HANDLE \<Rightarrow> TPM_HANDLE \<Rightarrow> 'b world \<Rightarrow> entry_ptr \<times> 'b world" where
  "handle_map_entry_new phandle vhandle w =
     (let p = w_heap_next w in
      (p, w\<lparr>w_heap := (w_heap w)(p := \<lparr>e_phandle = phandle, e_vhandle = vhandle,
                                         e_context = [], e_refcount = 1\<rparr>),
             w_heap_next := p + 1\<rparr>))"

text \<open>
  The sink is an external collaborator (section 1); \<^verbatim>\<open>sink_enqueue\<close> is its only
  entry point. The model keeps the objects passed to it, in order; \<open>None\<close> is the
  null pointer.
\<close>

definition sink_enqueue :: "Tpm2Response option \<Rightarrow> 'b world \<Rightarrow> 'b world" where
  "sink_enqueue obj w = w\<lparr>w_sink := w_sink w @ [obj]\<rparr>"

text \<open>
  Modelled from the spec: \<^verbatim>\<open>tpm2-command.c\<close> is missing. Section 3: the command gives
  write access to the slots of its handle area.
\<close>

definition tpm2_command_set_handle :: "Tpm2Command \<Rightarrow> TPM_HANDLE \<Rightarrow> nat \<Rightarrow> Tpm2Command" where
  "tpm2_command_set_handle cmd h i = cmd\<lparr>cmd_handles := (cmd_handles cmd)(i := h)\<rparr>"

text \<open>
  Modelled from the spec: \<^verbatim>\<open>tpm2-response.c\<close> is missing. A synthesized response
  has the standard layout of a TPM response that carries only the chosen return code
  (section 6), built against the given connection (section 4.4); it carries no handle
  (section 7: response virtualization is skipped for it).
\<close>

definition tpm2_response_new_rc :: "conn_id \<Rightarrow> TSS2_RC \<Rightarrow> Tpm2Response" where
  "tpm2_response_new_rc connection rc =
     \<lparr>rsp_connection = connection, rsp_rc = rc, rsp_has_handle = False,
      rsp_handle = 0, rsp_params = []\<rparr>"

text \<open>
  Modelled from the spec: \<^verbatim>\<open>handle-map.c\<close> is missing. Section 4.1: \<open>is_full\<close> is
  true iff the size of the map equals its capacity.
\<close>

definition handle_map_is_full :: "HandleMap \<Rightarrow> bool" where
  "handle_map_is_full m = (length (hm_table m) = hm_max_entries m)"

text \<open>
  Modelled from the spec: \<^verbatim>\<open>handle-map.c\<close> is missing. Section 4.1: \<open>vlookup\<close> lends
  the entry bound to a virtual handle, if there is one, for the time the command is
  processed; sections 3 and 9: the borrower holds a reference of its own, which it
  drops when it is done.
\<close>

definition handle_map_vlookup ::
  "conn_id \<Rightarrow> TPM_HANDLE \<Rightarrow> 'b world \<Rightarrow> entry_ptr option \<times> 'b world" where
  "handle_map_vlookup c vhandle w =
     (case map_of (hm_table (w_trans_map w c)) vhandle of
        None \<Rightarrow> (None, w)
      | Some p \<Rightarrow> (Some p, g_object_ref p w))"

text \<open>
  Modelled from the spec: \<^verbatim>\<open>handle-map.c\<close> is missing. Section 4.1: \<open>insert\<close> binds
  the virtual handle to the entry and fails if the handle is already bound; section 9:
  the map is one of the owners of every entry it binds.
\<close>

definition handle_map_insert ::
  "conn_id \<Rightarrow> TPM_HANDLE \<Rightarrow> entry_ptr \<Rightarrow> 'b world \<Rightarrow> 'b world" where
  "handle_map_insert c vhandle p w =
     (let m = w_trans_map w c in
      case map_of (hm_table m) vhandle of
        Some q \<Rightarrow> w
      | None \<Rightarrow>
          g_object_ref p
            (w\<lparr>w_trans_map := (w_trans_map w)(c := m\<lparr>hm_table := hm_table m @ [(vhandle, p)]\<rparr>)\<rparr>))"

text \<open>
  Modelled from the spec: \<^verbatim>\<open>handle-map.c\<close> is missing. Section 4.1: \<open>remove\<close>
  removes the binding; section 9: the removal drops the reference of the map, and the
  caller releases its own.
\<close>

definition handle_map_remove :: "conn_id \<Rightarrow> TPM_HANDLE \<Rightarrow> 'b world \<Rightarrow> 'b world" where
  "handle_map_remove c vhandle w =
     (let m = w_trans_map w c in
      case map_of (hm_table m) vhandle of
        None \<Rightarrow> w
      | Some p \<Rightarrow>
          g_object_unref p
            (w\<lparr>w_trans_map :=
                 (w_trans_map w)(c := m\<lparr>hm_table := filter (\<lambda>b. fst b \<noteq> vhandle) (hm_table m)\<rparr>)\<rparr>))"

text \<open>
  Modelled from the spec: \<^verbatim>\<open>handle-map.c\<close> is missing. Sections 3 and 4.1:
  \<open>next_vhandle\<close> is a monotonic allocator within the transient range of the
  connection; it may skip handles that were freed, and it fails when the 24-bit space
  of the range is used up. The caller tests the result against 0 (line 225), the
  handle that is never handed out.
\<close>

definition handle_map_next_vhandle :: "conn_id \<Rightarrow> 'b world \<Rightarrow> TPM_HANDLE \<times> 'b world" where
  "handle_map_next_vhandle c w =
     (let m = w_trans_map w c; v = hm_next_vhandle m in
      if drop_bit HR_SHIFT v = TPM_HT_TRANSIENT
      then (v, w\<lparr>w_trans_map := (w_trans_map w)(c := m\<lparr>hm_next_vhandle := v + 1\<rparr>)\<rparr>)
      else (0, w))"

text \<open>
  The three entry points of the access broker: the call goes to the function of the
  parameter, on the state of the device, and is recorded.
\<close>

definition access_broker_send_command ::
  "'b AccessBroker \<Rightarrow> Tpm2Command \<Rightarrow> 'b world \<Rightarrow> (Tpm2Response option \<times> TSS2_RC) \<times> 'b world" where
  "access_broker_send_command ab cmd w =
     (case ab_send_command ab (w_tpm w) cmd of
        (r, t) \<Rightarrow> (r, w\<lparr>w_tpm := t, w_calls := w_calls w @ [SendCommand cmd]\<rparr>))"

definition access_broker_context_load ::
  "'b AccessBroker \<Rightarrow> TPMS_CONTEXT \<Rightarrow> 'b world \<Rightarrow> (TSS2_RC \<times> TPM_HANDLE) \<times> 'b world" where
  "access_broker_context_load ab ctx w =
     (case ab_context_load ab (w_tpm w) ctx of
        (r, t) \<Rightarrow> (r, w\<lparr>w_tpm := t, w_calls := w_calls w @ [ContextLoad ctx]\<rparr>))"

definition access_broker_context_saveflush ::
  "'b AccessBroker \<Rightarrow> TPM_HANDLE \<Rightarrow> TPMS_CONTEXT \<Rightarrow> 'b world
     \<Rightarrow> (TSS2_RC \<times> TPMS_CONTEXT) \<times> 'b world" where
  "access_broker_context_saveflush ab phandle ctx w =
     (case ab_context_saveflush ab (w_tpm w) phandle ctx of
        (r, t) \<Rightarrow> (r, w\<lparr>w_tpm := t, w_calls := w_calls w @ [ContextSaveFlush phandle]\<rparr>))"

subsection \<open>The functions of resource-manager.c\<close>

text \<open>
  \<^verbatim>\<open>resource_manager_virt_to_phys\<close> (lines 73-93): load the context of the entry,
  and on success store the handle that the device assigned in the entry and in slot
  \<open>handle_number\<close> of the command. The result is the return code, the command and
  the world.
\<close>

definition resource_manager_virt_to_phys ::
  "'b AccessBroker \<Rightarrow> Tpm2Command \<Rightarrow> entry_ptr \<Rightarrow> nat \<Rightarrow> 'b world
     \<Rightarrow> TSS2_RC \<times> Tpm2Command \<times> 'b world" where
  "resource_manager_virt_to_phys ab command entry handle_number w =
     (case access_broker_context_load ab (e_context (w_heap w entry)) w of
        ((rc, phandle), w1) \<Rightarrow>
          if rc = TSS2_RC_SUCCESS
          then (rc, tpm2_command_set_handle command phandle handle_number,
                handle_map_entry_set_phandle entry phandle w1)
          else (rc, command, g_warning (WarnLoadFailed rc) w1))"

text \<open>
  The body of the loop of \<^verbatim>\<open>resource_manager_load_contexts\<close> (lines 127-151) for
  slot \<open>i\<close>. \<open>handles\<close> is the local array filled in line 124, and the tuple holds
  \<open>rc\<close>, the array \<open>entries\<close>, \<open>*entry_count\<close>, the command and the world. The
  \<^verbatim>\<open>continue\<close> of line 140 and the two \<^verbatim>\<open>break\<close>s of lines 145 and 148, which
  leave the \<^verbatim>\<open>switch\<close>, all go on with the next slot. The store of line 146 faults
  when the index is outside the array.
\<close>

definition load_contexts_body ::
  "'b AccessBroker \<Rightarrow> conn_id \<Rightarrow> (nat \<Rightarrow> TPM_HANDLE) \<Rightarrow> nat
     \<Rightarrow> TSS2_RC \<times> slot list \<times> nat \<times> Tpm2Command \<times> 'b world
     \<Rightarrow> fault + (TSS2_RC \<times> slot list \<times> nat \<times> Tpm2Command \<times> 'b world)" where
  "load_contexts_body ab connection handles i st =
     (case st of (rc, entries, entry_count, command, w) \<Rightarrow>
        if drop_bit HR_SHIFT (handles i) = TPM_HT_TRANSIENT then
          (case handle_map_vlookup connection (handles i) w of
             (None, w1) \<Rightarrow>
               Inr (rc, entries, entry_count, command, g_warning (WarnNoEntry (handles i)) w1)
           | (Some entry, w1) \<Rightarrow>
               (case resource_manager_virt_to_phys ab command entry i w1 of
                  (rc1, command1, w2) \<Rightarrow>
                    if rc1 \<noteq> TSS2_RC_SUCCESS then Inr (rc1, entries, entry_count, command1, w2)
                    else if entry_count < length entries then
                      Inr (rc1, entries[entry_count := Ptr entry], entry_count + 1, command1, w2)
                    else Inl OutOfBounds))
        else Inr st)"

text \<open>The loop of lines 126-152: \<^verbatim>\<open>for (i = 0; i < handle_count; ++i)\<close>.\<close>

function load_contexts_loop ::
  "'b AccessBroker \<Rightarrow> conn_id \<Rightarrow> (nat \<Rightarrow> TPM_HANDLE) \<Rightarrow> nat \<Rightarrow> nat
     \<Rightarrow> TSS2_RC \<times> slot list \<times> nat \<times> Tpm2Command \<times> 'b world
     \<Rightarrow> fault + (TSS2_RC \<times> slot list \<times> nat \<times> Tpm2Command \<times> 'b world)" where
  "load_contexts_loop ab connection handles i handle_count st =
     (if i < handle_count then
        (case load_contexts_body ab connection handles i st of
           Inl f \<Rightarrow> Inl f
         | Inr st1 \<Rightarrow> load_contexts_loop ab connection handles (i + 1) handle_count st1)
      else Inr st)"
  by pat_completeness auto
termination
  by (relation "measure (\<lambda>(ab, connection, handles, i, handle_count, st). handle_count - i)") auto

text \<open>
  \<^verbatim>\<open>resource_manager_load_contexts\<close> (lines 99-157). The caller passes non-null
  pointers, so the test of line 113 is always false. When the handle count exceeds
  \<open>*entry_count\<close> the function returns before it writes \<open>*entry_count\<close>. The local
  array \<^verbatim>\<open>handles\<close> has three elements (line 109), and line 124 fills
  \<open>handle_count\<close> of them.
\<close>

definition resource_manager_load_contexts ::
  "headers \<Rightarrow> 'b AccessBroker \<Rightarrow> Tpm2Command \<Rightarrow> slot list \<Rightarrow> nat \<Rightarrow> 'b world
     \<Rightarrow> fault + (TSS2_RC \<times> slot list \<times> nat \<times> Tpm2Command \<times> 'b world)" where
  "resource_manager_load_contexts hdr ab command entries entry_count w =
     (let connection = cmd_connection command;
          handle_count = unat (cmd_handle_count command)
      in if handle_count > entry_count then
           Inr (RM_RC hdr TSS2_BASE_RC_GENERAL_FAILURE, entries, entry_count, command,
                g_warning WarnHandleCount w)
         else if handle_count > 3 then Inl OutOfBounds
         else load_contexts_loop ab connection (cmd_handles command) 0 handle_count
                (TSS2_RC_SUCCESS, entries, 0, command, w))"

text \<open>
  \<^verbatim>\<open>resource_manager_flushsave_context\<close> (lines 164-197). The access broker writes
  the saved context into the buffer of the entry; on success the physical handle of
  the entry is set to 0, on failure a warning is logged and the handle is left.
\<close>

definition resource_manager_flushsave_context ::
  "'b AccessBroker \<Rightarrow> entry_ptr \<Rightarrow> 'b world \<Rightarrow> TSS2_RC \<times> 'b world" where
  "resource_manager_flushsave_context ab entry w =
     (let phandle = e_phandle (w_heap w entry) in
      if drop_bit HR_SHIFT phandle = TPM_HT_TRANSIENT then
        (case access_broker_context_saveflush ab phandle (e_context (w_heap w entry)) w of
           ((rc, ctx), w1) \<Rightarrow>
             (let w2 = w1\<lparr>w_heap := (w_heap w1)(entry := (w_heap w1 entry)\<lparr>e_context := ctx\<rparr>)\<rparr>
              in if rc = TSS2_RC_SUCCESS
                 then (rc, handle_map_entry_set_phandle entry 0 w2)
                 else (rc, g_warning (WarnSaveFlushFailed phandle rc) w2)))
      else (TSS2_RC_SUCCESS, w))"

text \<open>
  \<^verbatim>\<open>resource_manager_virtualize_handle\<close> (lines 208-241). The result is the pointer
  returned (\<open>Null\<close> when the handle is not transient), the response and the world;
  \<^verbatim>\<open>g_error\<close> in line 226 aborts.
\<close>

definition resource_manager_virtualize_handle ::
  "Tpm2Response \<Rightarrow> 'b world \<Rightarrow> fault + (slot \<times> Tpm2Response \<times> 'b world)" where
  "resource_manager_virtualize_handle response w =
     (let phandle = rsp_handle response in
      if drop_bit HR_SHIFT phandle = TPM_HT_TRANSIENT then
        (let connection = rsp_connection response in
         case handle_map_next_vhandle connection w of
           (vhandle, w1) \<Rightarrow>
             if vhandle = 0 then Inl Aborted
             else (case handle_map_entry_new phandle vhandle w1 of
                     (entry, w2) \<Rightarrow>
                       Inr (Ptr entry, response\<lparr>rsp_handle := vhandle\<rparr>,
                            handle_map_insert connection vhandle entry w2)))
      else Inr (Null, response, w))"

text \<open>
  \<^verbatim>\<open>resource_manager_flush_context\<close> (lines 264-318). The result is the response
  pointer returned (\<open>None\<close> is \<^verbatim>\<open>NULL\<close>) and the world.
\<close>

definition resource_manager_flush_context ::
  "headers \<Rightarrow> 'b AccessBroker \<Rightarrow> Tpm2Command \<Rightarrow> 'b world \<Rightarrow> Tpm2Response option \<times> 'b world" where
  "resource_manager_flush_context hdr ab command w =
     (if cmd_code command \<noteq> TPM_CC_FlushContext then (None, g_warning WarnWrongCommand w)
      else
        (let handle = cmd_flush_handle command in
         if drop_bit HR_SHIFT handle = TPM_HT_TRANSIENT then
           (let connection = cmd_connection command in
            case handle_map_vlookup connection handle w of
              (Some entry, w1) \<Rightarrow>
                (Some (tpm2_response_new_rc connection TSS2_RC_SUCCESS),
                 g_object_unref entry (handle_map_remove connection handle w1))
            | (None, w1) \<Rightarrow>
                (Some (tpm2_response_new_rc connection
                         (RM_RC hdr (TPM_RC_HANDLE + TPM_RC_P + TPM_RC_1))), w1))
         else
           (case access_broker_send_command ab command w of
              ((response, rc), w1) \<Rightarrow> (response, w1))))"

text \<open>\<^verbatim>\<open>resource_manager_is_over_object_quota\<close> (lines 323-346).\<close>

definition resource_manager_is_over_object_quota :: "Tpm2Command \<Rightarrow> 'b world \<Rightarrow> bool" where
  "resource_manager_is_over_object_quota command w =
     (if cmd_code command = TPM_CC_CreatePrimary \<or> cmd_code command = TPM_CC_Load
         \<or> cmd_code command = TPM_CC_LoadExternal
      then handle_map_is_full (w_trans_map w (cmd_connection command))
      else False)"

text \<open>
  Lines 414-420 of \<^verbatim>\<open>resource_manager_process_tpm2_command\<close>: the transformation of
  the response. The pointer returned by \<^verbatim>\<open>resource_manager_virtualize_handle\<close> is
  stored at index \<open>entry_count\<close> of \<open>entries\<close>, and counted when it is not null.
\<close>

definition virtualize_response ::
  "Tpm2Response \<Rightarrow> slot list \<Rightarrow> nat \<Rightarrow> 'b world
     \<Rightarrow> fault + (Tpm2Response \<times> slot list \<times> nat \<times> 'b world)" where
  "virtualize_response response entries entry_count w =
     (if rsp_has_handle response then
        (case resource_manager_virtualize_handle response w of
           Inl f \<Rightarrow> Inl f
         | Inr (e, response1, w1) \<Rightarrow>
             if entry_count < length entries then
               Inr (response1, entries[entry_count := e],
                    (if e \<noteq> Null then entry_count + 1 else entry_count), w1)
             else Inl OutOfBounds)
      else Inr (response, entries, entry_count, w))"

text \<open>
  The \<^verbatim>\<open>switch\<close> of lines 392-422: the response to enqueue, the array \<open>entries\<close>,
  \<open>entry_count\<close> and the world when control reaches line 423. The return value of
  \<^verbatim>\<open>resource_manager_load_contexts\<close> is not used (line 401); a null response of the
  access broker is replaced by a synthesized one only in the \<^verbatim>\<open>default\<close> case
  (lines 408-411).
\<close>

definition command_switch ::
  "headers \<Rightarrow> 'b AccessBroker \<Rightarrow> Tpm2Command \<Rightarrow> slot list \<Rightarrow> nat \<Rightarrow> 'b world
     \<Rightarrow> fault + (Tpm2Response option \<times> slot list \<times> nat \<times> 'b world)" where
  "command_switch hdr ab command entries entry_count w =
     (if cmd_code command = TPM_CC_FlushContext then
        (case resource_manager_flush_context hdr ab command w of
           (response, w1) \<Rightarrow> Inr (response, entries, 0, w1))
      else
        (case (if unat (cmd_handle_count command) > 0
               then resource_manager_load_contexts hdr ab command entries entry_count w
               else Inr (TSS2_RC_SUCCESS, entries, 0, command, w)) of
           Inl f \<Rightarrow> Inl f
         | Inr (rc0, entries1, entry_count1, command1, w1) \<Rightarrow>
             (case access_broker_send_command ab command1 w1 of
                ((r, rc), w2) \<Rightarrow>
                  (case (case r of
                           None \<Rightarrow> (tpm2_response_new_rc (cmd_connection command) rc,
                                    g_warning (WarnSendError rc) w2)
                         | Some response \<Rightarrow> (response, w2)) of
                     (response, w3) \<Rightarrow>
                       (case virtualize_response response entries1 entry_count1 w3 of
                          Inl f \<Rightarrow> Inl f
                        | Inr (response1, entries2, entry_count2, w4) \<Rightarrow>
                            Inr (Some response1, entries2, entry_count2, w4))))))"

text \<open>
  The body of the loop of lines 429-432 for index \<open>i\<close>: save and flush the context of
  the entry, and release the reference held on it (the return code is not used). An
  index outside the array and an element that was never written are faults;
  \<^verbatim>\<open>resource_manager_flushsave_context\<close> aborts on a null pointer (line 175).
\<close>

definition flushsave_body :: "'b AccessBroker \<Rightarrow> slot list \<Rightarrow> nat \<Rightarrow> 'b world \<Rightarrow> fault + 'b world" where
  "flushsave_body ab entries i w =
     (if i < length entries then
        (case entries ! i of
           Uninit \<Rightarrow> Inl Uninitialised
         | Null \<Rightarrow> Inl Aborted
         | Ptr entry \<Rightarrow>
             Inr (g_object_unref entry (snd (resource_manager_flushsave_context ab entry w))))
      else Inl OutOfBounds)"

text \<open>The loop of lines 429-432: \<^verbatim>\<open>for (i = 0; i < entry_count; ++i)\<close>.\<close>

function flushsave_loop ::
  "'b AccessBroker \<Rightarrow> slot list \<Rightarrow> nat \<Rightarrow> nat \<Rightarrow> 'b world \<Rightarrow> fault + 'b world" where
  "flushsave_loop ab entries i entry_count w =
     (if i < entry_count then
        (case flushsave_body ab entries i w of
           Inl f \<Rightarrow> Inl f
         | Inr w1 \<Rightarrow> flushsave_loop ab entries (i + 1) entry_count w1)
      else Inr w)"
  by pat_completeness auto
termination
  by (relation "measure (\<lambda>(ab, entries, i, entry_count, w). entry_count - i)") auto

text \<open>
  \<^verbatim>\<open>resource_manager_process_tpm2_command\<close> (lines 365-433). \<open>entries\<close> starts with
  \<open>ENTRY_COUNT\<close> elements that were never written and \<open>entry_count\<close> with
  \<open>ENTRY_COUNT - 1\<close>.
\<close>

definition resource_manager_process_tpm2_command ::
  "headers \<Rightarrow> 'b AccessBroker \<Rightarrow> Tpm2Command \<Rightarrow> 'b world \<Rightarrow> fault + 'b world" where
  "resource_manager_process_tpm2_command hdr ab command w =
     (if resource_manager_is_over_object_quota command w then
        Inr (sink_enqueue
               (Some (tpm2_response_new_rc (cmd_connection command)
                       (TSS2_RESMGR_RC_OBJECT_MEMORY hdr))) w)
      else
        (case command_switch hdr ab command (replicate ENTRY_COUNT Uninit) (ENTRY_COUNT - 1) w of
           Inl f \<Rightarrow> Inl f
         | Inr (response, entries, entry_count, w1) \<Rightarrow>
             flushsave_loop ab entries 0 entry_count (sink_enqueue response w1)))"

subsection \<open>Example objects\<close>

text \<open>Values for the two constants that are parameters.\<close>

definition example_headers :: headers where
  "example_headers =
     \<lparr>TSS2_RESMGR_ERROR_LEVEL = 0xC0000, TSS2_RESMGR_RC_OBJECT_MEMORY = 0xC0902\<rparr>"

text \<open>
  A device whose context loads return \<open>load_rc\<close>, whose command transmission yields a
  response iff \<open>send_ok\<close>, and whose context saves return \<open>save_rc\<close>; its state
  counts the calls. The response to \<^verbatim>\<open>CreatePrimary\<close> carries a transient handle.
\<close>

definition example_response :: "Tpm2Command \<Rightarrow> Tpm2Response" where
  "example_response cmd =
     \<lparr>rsp_connection = cmd_connection cmd, rsp_rc = 0,
      rsp_has_handle = (cmd_code cmd = TPM_CC_CreatePrimary),
      rsp_handle = (if cmd_code cmd = TPM_CC_CreatePrimary then 0x80FFFFFF else 0),
      rsp_params = []\<rparr>"

definition example_broker :: "TSS2_RC \<Rightarrow> bool \<Rightarrow> TSS2_RC \<Rightarrow> nat AccessBroker" where
  "example_broker load_rc send_ok save_rc =
     \<lparr>ab_send_command =
        (\<lambda>t cmd. ((if send_ok then Some (example_response cmd) else None,
                    if send_ok then 0 else 0xA000A), t + 1)),
      ab_context_load =
        (\<lambda>t ctx. ((load_rc, if load_rc = 0 then 0x80FFFFFE else 0), t + 1)),
      ab_context_saveflush =
        (\<lambda>t h ctx. ((save_rc, if save_rc = 0 then [4, 5, 6] else ctx), t + 1))\<rparr>"

text \<open>
  The same device, except that its context loads succeed with the handle
  \<^verbatim>\<open>0x01000007\<close>, whose type byte is not \<^verbatim>\<open>TPM_HT_TRANSIENT\<close>.
\<close>

definition stray_broker :: "nat AccessBroker" where
  "stray_broker = (example_broker 0 True 0)
     \<lparr>ab_context_load := (\<lambda>t ctx. ((0, 0x01000007), t + 1))\<rparr>"

text \<open>
  A world in which connection 1 has one object: virtual handle \<^verbatim>\<open>0x80000000\<close> is
  bound to the entry at address 0, whose context is saved and whose physical handle
  is \<open>phandle\<close>. The map has room for \<open>capacity\<close> entries and hands out \<open>next\<close> as
  its next virtual handle.
\<close>

definition example_world :: "TPM_HANDLE \<Rightarrow> nat \<Rightarrow> TPM_HANDLE \<Rightarrow> nat world" where
  "example_world phandle capacity next =
     \<lparr>w_tpm = 0,
      w_heap = (\<lambda>p. \<lparr>e_phandle = phandle, e_vhandle = 0x80000000,
                      e_context = [1, 2, 3], e_refcount = 1\<rparr>),
      w_heap_next = 1,
      w_trans_map = (\<lambda>c. \<lparr>hm_table = (if c = 1 then [(0x80000000, 0)] else []),
                           hm_max_entries = capacity, hm_next_vhandle = next\<rparr>),
      w_sink = [], w_calls = [], w_warnings = []\<rparr>"

text \<open>
  A command of connection 1 with the given code and handle count, whose first four
  bytes after the header (slot 0 of the handle area, and the handle argument of
  \<^verbatim>\<open>FlushContext\<close>) are \<open>h\<close>.
\<close>

definition example_command :: "TPM_CC \<Rightarrow> 8 word \<Rightarrow> TPM_HANDLE \<Rightarrow> Tpm2Command" where
  "example_command cc n h =
     \<lparr>cmd_connection = 1, cmd_code = cc, cmd_handle_count = n,
      cmd_handles = (\<lambda>i. if i = 0 then h else 0), cmd_flush_handle = h, cmd_params = []\<rparr>"

subsection \<open>Counting context loads\<close>

text \<open>
  The number of calls of \<^verbatim>\<open>access_broker_context_load\<close> in a record of calls, and
  the number of failed loads in a log of warnings (line 90 logs one for each).
\<close>

definition load_calls :: "broker_call list \<Rightarrow> nat" where
  "load_calls cs = length (filter (\<lambda>c. case c of ContextLoad x \<Rightarrow> True | _ \<Rightarrow> False) cs)"

definition load_failures :: "warning list \<Rightarrow> nat" where
  "load_failures ws = length (filter (\<lambda>x. case x of WarnLoadFailed r \<Rightarrow> True | _ \<Rightarrow> False) ws)"

subsection \<open>The context loads that a command is due\<close>

text \<open>
  The context loads that slots \<open>i\<close> to \<open>handle_count - 1\<close> of a command call for, in
  slot order: one for every slot whose handle has the transient type byte and is bound
  in the transient map of the connection, with the saved context of the entry it is
  bound to. The physical handle of the entry plays no part.
\<close>

definition context_loads_due ::
  "'b world \<Rightarrow> conn_id \<Rightarrow> (nat \<Rightarrow> TPM_HANDLE) \<Rightarrow> nat \<Rightarrow> nat \<Rightarrow> broker_call list" where
  "context_loads_due w connection handles i handle_count =
     concat (map (\<lambda>j. if drop_bit HR_SHIFT (handles j) = TPM_HT_TRANSIENT
                        then (case map_of (hm_table (w_trans_map w connection)) (handles j) of
                                None \<Rightarrow> []
                              | Some entry \<Rightarrow> [ContextLoad (e_context (w_heap w entry))])
                        else [])
                 [i..<handle_count])"

subsection \<open>The contract of the access broker\<close>

text \<open>
  Section 6 of the specification: \<^verbatim>\<open>context_load\<close> loads a saved context into a
  fresh physical transient slot. A successful load therefore returns a handle whose
  type byte is \<^verbatim>\<open>TPM_HT_TRANSIENT\<close>.
\<close>

definition loads_into_transient_slots :: "'b AccessBroker \<Rightarrow> bool" where
  "loads_into_transient_slots ab =
     (\<forall>t ctx. fst (fst (ab_context_load ab t ctx)) = TSS2_RC_SUCCESS
        \<longrightarrow> drop_bit HR_SHIFT (snd (fst (ab_context_load ab t ctx))) = TPM_HT_TRANSIENT)"

subsection \<open>The invariant of the allocator of virtual handles\<close>

text \<open>
  Section 3 of the specification: the next virtual handle of a map never collides
  with a live key. For the allocator that counts upwards this is the case when every
  virtual handle bound in the map lies below the next one to hand out.
\<close>

definition vhandles_below_next :: "HandleMap \<Rightarrow> bool" where
  "vhandles_below_next m = list_all (\<lambda>b. fst b < hm_next_vhandle m) (hm_table m)"

section \<open>Properties\<close>

subsection \<open>Auxiliary facts\<close>

declare load_contexts_loop.simps [simp del]
declare flushsave_loop.simps [simp del]

lemma flushsave_loop_done: "flushsave_loop ab entries i i w = Inr w"
  by (simp add: flushsave_loop.simps)

lemma command_codes_distinct:
  "TPM_CC_FlushContext \<noteq> TPM_CC_CreatePrimary" "TPM_CC_FlushContext \<noteq> TPM_CC_Load"
  "TPM_CC_FlushContext \<noteq> TPM_CC_LoadExternal"
  by (simp_all add: TPM_CC_FlushContext_def TPM_CC_CreatePrimary_def TPM_CC_Load_def
      TPM_CC_LoadExternal_def)

lemma flush_not_over_quota:
  "cmd_code command = TPM_CC_FlushContext \<Longrightarrow> \<not> resource_manager_is_over_object_quota command w"
  by (simp add: resource_manager_is_over_object_quota_def command_codes_distinct)

lemma transient_numerals:
  "drop_bit HR_SHIFT (0x80000000 :: 32 word) = TPM_HT_TRANSIENT"
  "drop_bit HR_SHIFT (0x80ABCDEF :: 32 word) = TPM_HT_TRANSIENT"
  "drop_bit HR_SHIFT (0x80FFFFFF :: 32 word) = TPM_HT_TRANSIENT"
  "drop_bit HR_SHIFT (0x80FFFFFE :: 32 word) = TPM_HT_TRANSIENT"
  "drop_bit HR_SHIFT (0x80000001 :: 32 word) = TPM_HT_TRANSIENT"
  "drop_bit HR_SHIFT (0x80000005 :: 32 word) = TPM_HT_TRANSIENT"
  "drop_bit HR_SHIFT (0x03000000 :: 32 word) \<noteq> TPM_HT_TRANSIENT"
  "drop_bit HR_SHIFT (0x40000001 :: 32 word) \<noteq> TPM_HT_TRANSIENT"
  "drop_bit HR_SHIFT (0x81000000 :: 32 word) \<noteq> TPM_HT_TRANSIENT"
  "drop_bit HR_SHIFT (0 :: 32 word) \<noteq> TPM_HT_TRANSIENT"
  "drop_bit HR_SHIFT (0x01000007 :: 32 word) \<noteq> TPM_HT_TRANSIENT"
  by (simp_all add: HR_SHIFT_def TPM_HT_TRANSIENT_def drop_bit_eq_div)

lemma transient_nonzero: "drop_bit HR_SHIFT v = TPM_HT_TRANSIENT \<Longrightarrow> v \<noteq> (0 :: 32 word)"
  using transient_numerals by auto

lemma map_of_filter_removed: "map_of (filter (\<lambda>b. fst b \<noteq> k) xs) k = None"
  by (induction xs) auto

lemma replicate_entries:
  "replicate ENTRY_COUNT x = [x, x, x, x]" "replicate 4 x = [x, x, x, x]"
  by (simp_all add: ENTRY_COUNT_def numeral_eq_Suc)

text \<open>The definitions to unfold when a command is run on the example objects.\<close>

lemmas rm_defs =
  resource_manager_process_tpm2_command_def resource_manager_is_over_object_quota_def
  command_switch_def resource_manager_flush_context_def resource_manager_load_contexts_def
  load_contexts_body_def resource_manager_virt_to_phys_def virtualize_response_def
  resource_manager_virtualize_handle_def flushsave_body_def resource_manager_flushsave_context_def
  handle_map_vlookup_def handle_map_insert_def handle_map_remove_def handle_map_next_vhandle_def
  handle_map_entry_new_def handle_map_is_full_def handle_map_entry_set_phandle_def
  access_broker_send_command_def access_broker_context_load_def access_broker_context_saveflush_def
  g_warning_def g_object_ref_def g_object_unref_def sink_enqueue_def tpm2_command_set_handle_def
  tpm2_response_new_rc_def

lemmas const_defs =
  TPM_CC_FlushContext_def TPM_CC_CreatePrimary_def TPM_CC_Load_def TPM_CC_LoadExternal_def
  TSS2_RC_SUCCESS_def ENTRY_COUNT_def

lemmas example_defs =
  example_command_def example_world_def example_broker_def example_response_def
  example_headers_def

subsection \<open>The quota gate\<close>

text \<open>
  Claim C3. A command whose code is \<^verbatim>\<open>CreatePrimary\<close>, \<^verbatim>\<open>Load\<close> or
  \<^verbatim>\<open>LoadExternal\<close> and that arrives while the transient handle map of its connection
  is full is answered at once: the world after the command is the world before it
  with one more object on the sink, the synthesized response with return code
  \<^verbatim>\<open>TSS2_RESMGR_RC_OBJECT_MEMORY\<close>. Nothing else changes, so no call reaches the
  access broker and every handle map is as it was. A command with any other code
  never meets the condition of the gate.
\<close>

theorem quota_gate_short_circuits:
  "(cmd_code command \<in> {TPM_CC_CreatePrimary, TPM_CC_Load, TPM_CC_LoadExternal}
      \<and> handle_map_is_full (w_trans_map w (cmd_connection command))
    \<longrightarrow> resource_manager_process_tpm2_command hdr ab command w =
          Inr (w\<lparr>w_sink := w_sink w @
                 [Some (tpm2_response_new_rc (cmd_connection command)
                         (TSS2_RESMGR_RC_OBJECT_MEMORY hdr))]\<rparr>))
   \<and> (cmd_code command \<notin> {TPM_CC_CreatePrimary, TPM_CC_Load, TPM_CC_LoadExternal}
    \<longrightarrow> \<not> resource_manager_is_over_object_quota command w)"
  by (auto simp: resource_manager_process_tpm2_command_def
      resource_manager_is_over_object_quota_def sink_enqueue_def)

theorem quota_gate_short_circuits_witness:
  "cmd_code (example_command TPM_CC_CreatePrimary 1 0x40000001)
     \<in> {TPM_CC_CreatePrimary, TPM_CC_Load, TPM_CC_LoadExternal}
   \<and> handle_map_is_full (w_trans_map (example_world 0 1 0x80000001) 1)
   \<and> resource_manager_process_tpm2_command example_headers (example_broker 0 True 0)
        (example_command TPM_CC_CreatePrimary 1 0x40000001) (example_world 0 1 0x80000001) =
      Inr ((example_world 0 1 0x80000001)
             \<lparr>w_sink := [Some (tpm2_response_new_rc 1
                                (TSS2_RESMGR_RC_OBJECT_MEMORY example_headers))]\<rparr>)
   \<and> cmd_code (example_command TPM_CC_FlushContext 0 0x80000000)
     \<notin> {TPM_CC_CreatePrimary, TPM_CC_Load, TPM_CC_LoadExternal}
   \<and> \<not> resource_manager_is_over_object_quota (example_command TPM_CC_FlushContext 0 0x80000000)
         (example_world 0 1 0x80000001)"
  using quota_gate_short_circuits [of "example_command TPM_CC_CreatePrimary 1 0x40000001"
      "example_world 0 1 0x80000001" example_headers "example_broker 0 True 0"]
    quota_gate_short_circuits [of "example_command TPM_CC_FlushContext 0 0x80000000"
      "example_world 0 1 0x80000001" example_headers "example_broker 0 True 0"]
  by (simp add: example_command_def example_world_def handle_map_is_full_def
      command_codes_distinct)

subsection \<open>FlushContext\<close>

text \<open>
  Claim C4. A \<^verbatim>\<open>FlushContext\<close> command whose handle has the transient type byte and
  is bound in the transient map of the connection: the binding is removed from the
  map (the table that remains has no binding for the handle), the entry loses the
  reference of the map (the reference taken by the lookup is returned as well, so its
  count ends one below where it started), the response synthesized with
  \<^verbatim>\<open>TSS2_RC_SUCCESS\<close> is put on the sink, and nothing else changes: no call reaches
  the access broker.
\<close>

theorem flush_context_managed_handle:
  assumes "cmd_code command = TPM_CC_FlushContext"
    and "drop_bit HR_SHIFT (cmd_flush_handle command) = TPM_HT_TRANSIENT"
    and "map_of (hm_table (w_trans_map w (cmd_connection command))) (cmd_flush_handle command)
           = Some entry"
  shows "resource_manager_process_tpm2_command hdr ab command w =
           Inr (w\<lparr>w_heap := (w_heap w)(entry :=
                     (w_heap w entry)\<lparr>e_refcount := e_refcount (w_heap w entry) - 1\<rparr>),
                  w_trans_map := (w_trans_map w)(cmd_connection command :=
                     (w_trans_map w (cmd_connection command))
                       \<lparr>hm_table := filter (\<lambda>b. fst b \<noteq> cmd_flush_handle command)
                                      (hm_table (w_trans_map w (cmd_connection command)))\<rparr>),
                  w_sink := w_sink w @
                     [Some (tpm2_response_new_rc (cmd_connection command) TSS2_RC_SUCCESS)]\<rparr>)
         \<and> map_of (filter (\<lambda>b. fst b \<noteq> cmd_flush_handle command)
                      (hm_table (w_trans_map w (cmd_connection command))))
             (cmd_flush_handle command) = None"
  using assms
  by (simp add: resource_manager_process_tpm2_command_def flush_not_over_quota
      command_switch_def resource_manager_flush_context_def handle_map_vlookup_def
      handle_map_remove_def g_object_ref_def g_object_unref_def map_of_filter_removed
      flushsave_loop_done sink_enqueue_def Let_def)

theorem flush_context_managed_handle_witness:
  "cmd_code (example_command TPM_CC_FlushContext 0 0x80000000) = TPM_CC_FlushContext
   \<and> drop_bit HR_SHIFT (cmd_flush_handle (example_command TPM_CC_FlushContext 0 0x80000000))
       = TPM_HT_TRANSIENT
   \<and> map_of (hm_table (w_trans_map (example_world 0 27 0x80000001) 1)) 0x80000000 = Some 0
   \<and> (\<exists>w'. resource_manager_process_tpm2_command example_headers (example_broker 0 True 0)
              (example_command TPM_CC_FlushContext 0 0x80000000) (example_world 0 27 0x80000001)
            = Inr w'
          \<and> hm_table (w_trans_map w' 1) = []
          \<and> e_refcount (w_heap w' 0) = 0
          \<and> w_sink w' = [Some (tpm2_response_new_rc 1 TSS2_RC_SUCCESS)]
          \<and> w_calls w' = [] \<and> w_tpm w' = 0)"
  using flush_context_managed_handle [of "example_command TPM_CC_FlushContext 0 0x80000000"
      "example_world 0 27 0x80000001" 0 example_headers "example_broker 0 True 0"]
  by (simp add: example_command_def example_world_def transient_numerals)

text \<open>
  Claim C5. A \<^verbatim>\<open>FlushContext\<close> command whose handle has the transient type byte and
  is not bound in the transient map of the connection: the world after the command is
  the world before it with one more object on the sink, the response synthesized with
  the return code \<^verbatim>\<open>RM_RC (TPM_RC_HANDLE + TPM_RC_P + TPM_RC_1)\<close>, which is the RESMGR
  error level plus the sum of the three codes. The maps are unchanged and no call
  reaches the access broker. The three codes have no bit in common, so their sum,
  \<^verbatim>\<open>0x1CB\<close>, is also their bitwise disjunction.
\<close>

theorem flush_context_unknown_handle:
  assumes "cmd_code command = TPM_CC_FlushContext"
    and "drop_bit HR_SHIFT (cmd_flush_handle command) = TPM_HT_TRANSIENT"
    and "map_of (hm_table (w_trans_map w (cmd_connection command))) (cmd_flush_handle command)
           = None"
  shows "resource_manager_process_tpm2_command hdr ab command w =
           Inr (w\<lparr>w_sink := w_sink w @
                  [Some (tpm2_response_new_rc (cmd_connection command)
                           (TSS2_RESMGR_ERROR_LEVEL hdr + (TPM_RC_HANDLE + TPM_RC_P + TPM_RC_1)))]\<rparr>)
         \<and> TPM_RC_HANDLE + TPM_RC_P + TPM_RC_1 = or TPM_RC_HANDLE (or TPM_RC_P TPM_RC_1)"
proof -
  have "TPM_RC_HANDLE + TPM_RC_P + TPM_RC_1 = or TPM_RC_HANDLE (or TPM_RC_P TPM_RC_1)"
    by (simp add: TPM_RC_HANDLE_def TPM_RC_P_def TPM_RC_1_def)
  then show ?thesis
    using assms
    by (simp add: resource_manager_process_tpm2_command_def flush_not_over_quota
        command_switch_def resource_manager_flush_context_def handle_map_vlookup_def
        flushsave_loop_done sink_enqueue_def RM_RC_def)
qed

theorem flush_context_unknown_handle_witness:
  "cmd_code (example_command TPM_CC_FlushContext 0 0x80ABCDEF) = TPM_CC_FlushContext
   \<and> drop_bit HR_SHIFT (cmd_flush_handle (example_command TPM_CC_FlushContext 0 0x80ABCDEF))
       = TPM_HT_TRANSIENT
   \<and> map_of (hm_table (w_trans_map (example_world 0 27 0x80000001) 1)) 0x80ABCDEF = None
   \<and> resource_manager_process_tpm2_command example_headers (example_broker 0 True 0)
        (example_command TPM_CC_FlushContext 0 0x80ABCDEF) (example_world 0 27 0x80000001) =
      Inr ((example_world 0 27 0x80000001)
             \<lparr>w_sink := [Some (tpm2_response_new_rc 1
                                (TSS2_RESMGR_ERROR_LEVEL example_headers + 0x1CB))]\<rparr>)"
  using flush_context_unknown_handle [of "example_command TPM_CC_FlushContext 0 0x80ABCDEF"
      "example_world 0 27 0x80000001" example_headers "example_broker 0 True 0"]
  by (simp add: example_command_def example_world_def transient_numerals
      TPM_RC_HANDLE_def TPM_RC_P_def TPM_RC_1_def)

text \<open>
  Claim C6. A \<^verbatim>\<open>FlushContext\<close> command whose handle does not have the transient type
  byte: the access broker receives the command as it came, and the object put on the
  sink is the response pointer that the access broker returned. Only the device, the
  sink and the record of calls change: the heap and every handle map are as they
  were.
\<close>

theorem flush_context_unmanaged_handle:
  assumes "cmd_code command = TPM_CC_FlushContext"
    and "drop_bit HR_SHIFT (cmd_flush_handle command) \<noteq> TPM_HT_TRANSIENT"
  shows "resource_manager_process_tpm2_command hdr ab command w =
           Inr (w\<lparr>w_tpm := snd (ab_send_command ab (w_tpm w) command),
                  w_sink := w_sink w @ [fst (fst (ab_send_command ab (w_tpm w) command))],
                  w_calls := w_calls w @ [SendCommand command]\<rparr>)"
  using assms
  by (simp add: resource_manager_process_tpm2_command_def flush_not_over_quota
      command_switch_def resource_manager_flush_context_def access_broker_send_command_def
      flushsave_loop_done sink_enqueue_def split: prod.splits)

theorem flush_context_unmanaged_handle_witness:
  "cmd_code (example_command TPM_CC_FlushContext 0 0x03000000) = TPM_CC_FlushContext
   \<and> drop_bit HR_SHIFT (cmd_flush_handle (example_command TPM_CC_FlushContext 0 0x03000000))
       \<noteq> TPM_HT_TRANSIENT
   \<and> resource_manager_process_tpm2_command example_headers (example_broker 0 True 0)
        (example_command TPM_CC_FlushContext 0 0x03000000) (example_world 0 27 0x80000001) =
      Inr ((example_world 0 27 0x80000001)
             \<lparr>w_tpm := 1,
              w_sink := [Some (example_response (example_command TPM_CC_FlushContext 0 0x03000000))],
              w_calls := [SendCommand (example_command TPM_CC_FlushContext 0 0x03000000)]\<rparr>)"
  using flush_context_unmanaged_handle [of "example_command TPM_CC_FlushContext 0 0x03000000"
      example_headers "example_broker 0 True 0" "example_world 0 27 0x80000001"]
  by (simp add: example_command_def example_world_def example_broker_def transient_numerals)

subsection \<open>Loading the contexts of a command\<close>

text \<open>
  One pass of the loop body returns, keeps the array at its length, and records at
  most one entry, a pointer, at the index \<open>entry_count\<close>. The entries recorded are
  the loads that succeeded: every load is in the record of calls, every failed load
  in the log of warnings.
\<close>

lemma load_contexts_body_entries:
  assumes "n < length es"
  shows "\<exists>rc' es' n' cmd' w' cs ws.
           load_contexts_body ab c hs i (rc, es, n, cmd, w) = Inr (rc', es', n', cmd', w')
         \<and> length es' = length es \<and> (\<forall>j<n. es' ! j = es ! j)
         \<and> (n' = n \<or> n' = n + 1 \<and> (\<exists>p. es' ! n = Ptr p))
         \<and> w_calls w' = w_calls w @ cs \<and> w_warnings w' = w_warnings w @ ws
         \<and> n' + load_failures ws = n + load_calls cs"
  using assms
  by (auto simp: load_contexts_body_def handle_map_vlookup_def resource_manager_virt_to_phys_def
      access_broker_context_load_def g_warning_def g_object_ref_def handle_map_entry_set_phandle_def
      load_calls_def load_failures_def
      split: option.splits prod.splits)

lemma load_contexts_loop_entries:
  "n + (hc - i) \<le> length es \<Longrightarrow> (\<forall>j<n. \<exists>p. es ! j = Ptr p) \<Longrightarrow>
   \<exists>rc' es' n' cmd' w' cs ws.
      load_contexts_loop ab c hs i hc (rc, es, n, cmd, w) = Inr (rc', es', n', cmd', w')
    \<and> length es' = length es \<and> n \<le> n' \<and> n' \<le> n + (hc - i)
    \<and> (\<forall>j<n'. \<exists>p. es' ! j = Ptr p)
    \<and> w_calls w' = w_calls w @ cs \<and> w_warnings w' = w_warnings w @ ws
    \<and> n' + load_failures ws = n + load_calls cs"
proof (induction k \<equiv> "hc - i" arbitrary: i rc es n cmd w)
  case 0
  then have "\<not> i < hc" by simp
  then have "load_contexts_loop ab c hs i hc (rc, es, n, cmd, w) = Inr (rc, es, n, cmd, w)"
    by (simp add: load_contexts_loop.simps)
  with 0 show ?case
    by (simp add: load_calls_def load_failures_def)
next
  case (Suc k)
  then have lt: "i < hc" and k: "k = hc - (i + 1)" by simp_all
  from Suc.prems lt have "n < length es" by simp
  from load_contexts_body_entries [OF this, of ab c hs i rc cmd w]
  obtain rc1 es1 n1 cmd1 w1 cs1 ws1 where
    body: "load_contexts_body ab c hs i (rc, es, n, cmd, w) = Inr (rc1, es1, n1, cmd1, w1)"
    and len: "length es1 = length es" and keep: "\<forall>j<n. es1 ! j = es ! j"
    and cnt: "n1 = n \<or> n1 = n + 1 \<and> (\<exists>p. es1 ! n = Ptr p)"
    and logs: "w_calls w1 = w_calls w @ cs1" "w_warnings w1 = w_warnings w @ ws1"
    and bal: "n1 + load_failures ws1 = n + load_calls cs1"
    by blast
  have room: "n1 + (hc - (i + 1)) \<le> length es1"
    using cnt len Suc.prems(1) lt by auto
  have init: "\<forall>j<n1. \<exists>p. es1 ! j = Ptr p"
    using cnt keep Suc.prems(2) by (auto simp: less_Suc_eq)
  from Suc.hyps(1) [OF k room init, of rc1 cmd1 w1]
  obtain rc' es' n' cmd' w' cs ws where
    rest: "load_contexts_loop ab c hs (i + 1) hc (rc1, es1, n1, cmd1, w1) = Inr (rc', es', n', cmd', w')"
    and r: "length es' = length es1" "n1 \<le> n'" "n' \<le> n1 + (hc - (i + 1))"
      "\<forall>j<n'. \<exists>p. es' ! j = Ptr p"
      "w_calls w' = w_calls w1 @ cs" "w_warnings w' = w_warnings w1 @ ws"
      "n' + load_failures ws = n1 + load_calls cs"
    by blast
  have step: "load_contexts_loop ab c hs i hc (rc, es, n, cmd, w) = Inr (rc', es', n', cmd', w')"
    using lt body rest by (subst load_contexts_loop.simps) simp
  have "n' + load_failures (ws1 @ ws) = n + load_calls (cs1 @ cs)"
    using bal r(7) by (simp add: load_calls_def load_failures_def)
  moreover have "n \<le> n'" "n' \<le> n + (hc - i)"
    using cnt r(2,3) lt by auto
  ultimately show ?case
    using step r len logs
    by (intro exI [of _ rc'] exI [of _ es'] exI [of _ n'] exI [of _ cmd'] exI [of _ w']
        exI [of _ "cs1 @ cs"] exI [of _ "ws1 @ ws"]) simp
qed

lemma load_contexts_entries:
  assumes "unat (cmd_handle_count command) \<le> k" and "k \<le> 3" and "k < length es0"
  shows "\<exists>rc es n c w' cs ws.
           resource_manager_load_contexts hdr ab command es0 k w = Inr (rc, es, n, c, w')
         \<and> length es = length es0 \<and> n \<le> unat (cmd_handle_count command)
         \<and> (\<forall>j<n. \<exists>p. es ! j = Ptr p)
         \<and> w_calls w' = w_calls w @ cs \<and> w_warnings w' = w_warnings w @ ws
         \<and> n + load_failures ws = load_calls cs"
proof -
  have "0 + (unat (cmd_handle_count command) - 0) \<le> length es0"
    using assms by simp
  from load_contexts_loop_entries [OF this, of ab "cmd_connection command" "cmd_handles command"
      TSS2_RC_SUCCESS command w]
  show ?thesis
    using assms by (simp add: resource_manager_load_contexts_def)
qed

text \<open>
  An entry whose physical handle is not zero is loaded all the same: here the entry
  bound to \<^verbatim>\<open>0x80000000\<close> has the physical handle \<^verbatim>\<open>0x80000005\<close>, the command
  names it in slot 0, and the access broker is asked to load its context; the handle
  that the load returns replaces the one the entry had.
\<close>

theorem load_despite_nonzero_phandle:
  "e_phandle (w_heap (example_world 0x80000005 27 0x80000001) 0) \<noteq> 0
   \<and> drop_bit HR_SHIFT (cmd_handles (example_command 0x173 1 0x80000000) 0) = TPM_HT_TRANSIENT
   \<and> map_of (hm_table (w_trans_map (example_world 0x80000005 27 0x80000001) 1)) 0x80000000
       = Some 0
   \<and> (\<exists>rc es n c w'. resource_manager_load_contexts example_headers (example_broker 0 True 0)
           (example_command 0x173 1 0x80000000) (replicate ENTRY_COUNT Uninit) (ENTRY_COUNT - 1)
           (example_world 0x80000005 27 0x80000001) = Inr (rc, es, n, c, w')
        \<and> w_calls w' = [ContextLoad [1, 2, 3]]
        \<and> e_phandle (w_heap w' 0) = 0x80FFFFFE)"
  by (simp add: rm_defs const_defs example_defs transient_numerals
      load_contexts_loop.simps Let_def)

lemma context_loads_due_same:
  assumes "w_trans_map w1 = w_trans_map w"
    and "\<forall>q. e_context (w_heap w1 q) = e_context (w_heap w q)"
  shows "context_loads_due w1 c hs i hc = context_loads_due w c hs i hc"
  using assms by (simp add: context_loads_due_def cong: option.case_cong if_cong)

lemma context_loads_due_step:
  assumes "i < hc"
  shows "context_loads_due w c hs i hc =
     (if drop_bit HR_SHIFT (hs i) = TPM_HT_TRANSIENT
      then (case map_of (hm_table (w_trans_map w c)) (hs i) of
              None \<Rightarrow> []
            | Some entry \<Rightarrow> [ContextLoad (e_context (w_heap w entry))])
      else []) @ context_loads_due w c hs (i + 1) hc"
  using assms by (simp add: context_loads_due_def upt_conv_Cons)

lemma load_contexts_body_calls:
  assumes "\<forall>t ctx. fst (fst (ab_context_load ab t ctx)) = TSS2_RC_SUCCESS"
    and "n < length es"
  shows "\<exists>rc' es' n' cmd' w'.
           load_contexts_body ab c hs i (rc, es, n, cmd, w) = Inr (rc', es', n', cmd', w')
         \<and> length es' = length es \<and> n' \<le> n + 1
         \<and> w_trans_map w' = w_trans_map w
         \<and> (\<forall>q. e_context (w_heap w' q) = e_context (w_heap w q))
         \<and> w_calls w' = w_calls w @
             (if drop_bit HR_SHIFT (hs i) = TPM_HT_TRANSIENT
              then (case map_of (hm_table (w_trans_map w c)) (hs i) of
                      None \<Rightarrow> []
                    | Some entry \<Rightarrow> [ContextLoad (e_context (w_heap w entry))])
              else [])"
  using assms(2) assms(1) [rule_format]
  by (auto simp: load_contexts_body_def handle_map_vlookup_def resource_manager_virt_to_phys_def
      access_broker_context_load_def g_warning_def g_object_ref_def handle_map_entry_set_phandle_def
      split: option.splits prod.splits)

lemma load_contexts_loop_calls:
  assumes "\<forall>t ctx. fst (fst (ab_context_load ab t ctx)) = TSS2_RC_SUCCESS"
  shows "n + (hc - i) \<le> length es \<Longrightarrow>
     \<exists>rc' es' n' cmd' w'.
        load_contexts_loop ab c hs i hc (rc, es, n, cmd, w) = Inr (rc', es', n', cmd', w')
      \<and> w_calls w' = w_calls w @ context_loads_due w c hs i hc"
proof (induction k \<equiv> "hc - i" arbitrary: i rc es n cmd w)
  case 0
  then have "load_contexts_loop ab c hs i hc (rc, es, n, cmd, w) = Inr (rc, es, n, cmd, w)"
    by (simp add: load_contexts_loop.simps)
  with 0 show ?case by (simp add: context_loads_due_def)
next
  case (Suc k)
  then have lt: "i < hc" and k: "k = hc - (i + 1)" by simp_all
  from Suc.prems lt have "n < length es" by simp
  from load_contexts_body_calls [OF assms this, of c hs i rc cmd w]
  obtain rc1 es1 n1 cmd1 w1 where
    body: "load_contexts_body ab c hs i (rc, es, n, cmd, w) = Inr (rc1, es1, n1, cmd1, w1)"
    and len: "length es1 = length es" and n1: "n1 \<le> n + 1"
    and maps: "w_trans_map w1 = w_trans_map w"
    and ctxs: "\<forall>q. e_context (w_heap w1 q) = e_context (w_heap w q)"
    and calls: "w_calls w1 = w_calls w @
             (if drop_bit HR_SHIFT (hs i) = TPM_HT_TRANSIENT
              then (case map_of (hm_table (w_trans_map w c)) (hs i) of
                      None \<Rightarrow> []
                    | Some entry \<Rightarrow> [ContextLoad (e_context (w_heap w entry))])
              else [])"
    by (elim exE conjE)
  have room: "n1 + (hc - (i + 1)) \<le> length es1"
    using n1 len Suc.prems lt by simp
  from Suc.hyps(1) [OF k room, of rc1 cmd1 w1]
  obtain rc' es' n' cmd' w' where
    rest: "load_contexts_loop ab c hs (i + 1) hc (rc1, es1, n1, cmd1, w1) = Inr (rc', es', n', cmd', w')"
    and calls': "w_calls w' = w_calls w1 @ context_loads_due w1 c hs (i + 1) hc"
    by (elim exE conjE)
  have step: "load_contexts_loop ab c hs i hc (rc, es, n, cmd, w) = Inr (rc', es', n', cmd', w')"
    using lt body rest by (subst load_contexts_loop.simps) simp
  have "w_calls w' = w_calls w @ context_loads_due w c hs i hc"
    using calls calls' context_loads_due_same [OF maps ctxs, of c hs "i + 1" hc]
    by (simp add: context_loads_due_step [OF lt])
  with step show ?case by blast
qed

text \<open>
  Claim C2, as amended. For a command with at most three handles whose context loads
  all succeed, \<^verbatim>\<open>resource_manager_load_contexts\<close> calls
  \<^verbatim>\<open>access_broker_context_load\<close> once for every slot whose handle has the transient
  type byte and is bound in the transient map of the connection, in slot order and
  with the saved context of the entry, whatever the physical handle of the entry is:
  neither \<^verbatim>\<open>resource_manager_load_contexts\<close> nor
  \<^verbatim>\<open>resource_manager_virt_to_phys\<close> reads the physical handle before the load.
\<close>

theorem context_load_whatever_phandle:
  assumes "unat (cmd_handle_count command) \<le> 3"
    and "\<forall>t ctx. fst (fst (ab_context_load ab t ctx)) = TSS2_RC_SUCCESS"
  shows "\<exists>rc es n c w'.
           resource_manager_load_contexts hdr ab command (replicate ENTRY_COUNT Uninit)
             (ENTRY_COUNT - 1) w = Inr (rc, es, n, c, w')
         \<and> w_calls w' = w_calls w @
             context_loads_due w (cmd_connection command) (cmd_handles command) 0
               (unat (cmd_handle_count command))"
proof -
  have "0 + (unat (cmd_handle_count command) - 0) \<le> length (replicate ENTRY_COUNT Uninit)"
    using assms(1) by (simp add: ENTRY_COUNT_def)
  from load_contexts_loop_calls [OF assms(2) this, of "cmd_connection command"
      "cmd_handles command" TSS2_RC_SUCCESS command w]
  show ?thesis
    using assms(1) by (simp add: resource_manager_load_contexts_def ENTRY_COUNT_def)
qed

theorem context_load_whatever_phandle_witness:
  "unat (cmd_handle_count (example_command 0x173 1 0x80000000)) \<le> 3
   \<and> (\<forall>t ctx. fst (fst (ab_context_load (example_broker 0 True 0) t ctx)) = TSS2_RC_SUCCESS)
   \<and> (\<exists>rc es n c w'.
         resource_manager_load_contexts example_headers (example_broker 0 True 0)
           (example_command 0x173 1 0x80000000) (replicate ENTRY_COUNT Uninit) (ENTRY_COUNT - 1)
           (example_world 0x80000005 27 0x80000001) = Inr (rc, es, n, c, w')
       \<and> w_calls w' = [ContextLoad [1, 2, 3]])"
proof -
  have h1: "unat (cmd_handle_count (example_command 0x173 1 0x80000000)) \<le> 3"
    by (simp add: example_command_def)
  have h2: "\<forall>t ctx. fst (fst (ab_context_load (example_broker 0 True 0) t ctx)) = TSS2_RC_SUCCESS"
    by (simp add: example_broker_def TSS2_RC_SUCCESS_def)
  have due: "context_loads_due (example_world 0x80000005 27 0x80000001)
      (cmd_connection (example_command 0x173 1 0x80000000))
      (cmd_handles (example_command 0x173 1 0x80000000)) 0
      (unat (cmd_handle_count (example_command 0x173 1 0x80000000))) = [ContextLoad [1, 2, 3]]"
    by (simp add: context_loads_due_def example_command_def example_world_def transient_numerals)
  have none: "w_calls (example_world 0x80000005 27 0x80000001) = []"
    by (simp add: example_world_def)
  from context_load_whatever_phandle [OF h1 h2, of example_headers
      "example_world 0x80000005 27 0x80000001"]
  have "\<exists>rc es n c w'.
         resource_manager_load_contexts example_headers (example_broker 0 True 0)
           (example_command 0x173 1 0x80000000) (replicate ENTRY_COUNT Uninit) (ENTRY_COUNT - 1)
           (example_world 0x80000005 27 0x80000001) = Inr (rc, es, n, c, w')
       \<and> w_calls w' = [ContextLoad [1, 2, 3]]"
    unfolding due none by simp
  with h1 h2 show ?thesis by simp
qed

text \<open>
  Claim C1. The claim is that a failed context load aborts the command: the command
  is not sent, and a response that carries the return code of the load is put on the
  sink. The code does not do this. Line 401 drops the return value of
  \<^verbatim>\<open>resource_manager_load_contexts\<close>, and line 405 sends the command in every case.
  On the input below the load of the only handle fails with \<^verbatim>\<open>0x902\<close>; the command
  is sent all the same, and the object on the sink is the response of the access
  broker, not a response with the return code of the load.
\<close>

theorem load_failure_still_sends:
  "\<exists>w'. resource_manager_process_tpm2_command example_headers (example_broker 0x902 True 0)
           (example_command 0x173 1 0x80000000) (example_world 0 27 0x80000001) = Inr w'
        \<and> w_calls w' = [ContextLoad [1, 2, 3],
                          SendCommand (example_command 0x173 1 0x80000000)]
        \<and> w_sink w' = [Some (example_response (example_command 0x173 1 0x80000000))]
        \<and> w_warnings w' = [WarnLoadFailed 0x902]"
  by (simp add: rm_defs const_defs example_defs transient_numerals replicate_entries
      load_contexts_loop.simps flushsave_loop.simps Let_def)

subsection \<open>Virtualizing the handle of a response\<close>

text \<open>
  When the transient range of the map is used up, \<^verbatim>\<open>handle_map_next_vhandle\<close>
  returns 0 and line 226 aborts: the response below reports a handle with the
  transient type byte, and yet no virtual handle is allocated, no entry is inserted
  and the response is not rewritten.
\<close>

theorem vhandle_rollover_aborts:
  "rsp_has_handle (example_response (example_command TPM_CC_CreatePrimary 1 0x40000001))
   \<and> drop_bit HR_SHIFT (rsp_handle (example_response (example_command TPM_CC_CreatePrimary 1 0x40000001)))
       = TPM_HT_TRANSIENT
   \<and> virtualize_response (example_response (example_command TPM_CC_CreatePrimary 1 0x40000001))
        (replicate ENTRY_COUNT Uninit) 0 (example_world 0 27 0x81000000) = Inl Aborted
   \<and> resource_manager_process_tpm2_command example_headers (example_broker 0 True 0)
        (example_command TPM_CC_CreatePrimary 1 0x40000001) (example_world 0 27 0x81000000)
       = Inl Aborted"
  by (simp add: rm_defs const_defs example_defs transient_numerals
      load_contexts_loop.simps flushsave_loop.simps Let_def)

text \<open>
  The allocator counts upwards inside the transient range, so the handle after a
  transient one is larger; under the invariant the next handle is not bound, and the
  invariant survives an allocation followed by the insertion, and a removal.
\<close>

lemma transient_succ:
  assumes "drop_bit HR_SHIFT (v :: 32 word) = TPM_HT_TRANSIENT"
  shows "v < v + 1"
proof -
  have "v \<noteq> - 1"
  proof
    assume "v = - 1"
    with assms show False
      by (simp add: HR_SHIFT_def TPM_HT_TRANSIENT_def mask_eq_exp_minus_1)
  qed
  then show ?thesis
    by (meson inc_less_eq_triv_imp not_le)
qed

lemma next_vhandle_unbound:
  "vhandles_below_next m \<Longrightarrow> map_of (hm_table m) (hm_next_vhandle m) = None"
  by (auto simp: vhandles_below_next_def list_all_iff map_of_eq_None_iff)

lemma below_nextD:
  "vhandles_below_next m \<Longrightarrow> (a, b) \<in> set (hm_table m) \<Longrightarrow> a < hm_next_vhandle m"
  by (auto simp: vhandles_below_next_def list_all_iff)

lemma below_nextI:
  "(\<And>a b. (a, b) \<in> set (hm_table m) \<Longrightarrow> a < hm_next_vhandle m) \<Longrightarrow> vhandles_below_next m"
  by (auto simp: vhandles_below_next_def list_all_iff)

lemma below_next_insert:
  assumes "vhandles_below_next m" and "drop_bit HR_SHIFT (hm_next_vhandle m) = TPM_HT_TRANSIENT"
  shows "vhandles_below_next
           (m\<lparr>hm_next_vhandle := hm_next_vhandle m + 1,
              hm_table := hm_table m @ [(hm_next_vhandle m, p)]\<rparr>)"
proof (rule below_nextI)
  fix a b
  assume "(a, b) \<in> set (hm_table (m\<lparr>hm_next_vhandle := hm_next_vhandle m + 1,
              hm_table := hm_table m @ [(hm_next_vhandle m, p)]\<rparr>))"
  then have "(a, b) \<in> set (hm_table m) \<or> a = hm_next_vhandle m" by auto
  then have "a \<le> hm_next_vhandle m"
    using below_nextD [OF assms(1), of a b] by auto
  with transient_succ [OF assms(2)]
  show "a < hm_next_vhandle (m\<lparr>hm_next_vhandle := hm_next_vhandle m + 1,
              hm_table := hm_table m @ [(hm_next_vhandle m, p)]\<rparr>)"
    by simp
qed

lemma below_next_remove:
  assumes "vhandles_below_next m"
  shows "vhandles_below_next (m\<lparr>hm_table := filter P (hm_table m)\<rparr>)"
  using assms by (auto simp: vhandles_below_next_def list_all_iff)

text \<open>
  Claim C7, as amended. The transformation of the response (lines 414-420, with
  \<^verbatim>\<open>resource_manager_virtualize_handle\<close>), for an index \<open>entry_count\<close> inside the
  array:
  \<^item> if the response reports a handle, the handle has the transient type byte, the
    map of the connection of the response has not used up its transient range, and
    every virtual handle bound in that map lies below the next one to hand out, then
    the virtual handle that is allocated is not bound in the map (it is fresh; the
    counter of the map moves on), a new entry with the physical handle of the
    response, the virtual handle, an empty context and two references (the map's and
    the caller's) is bound to the virtual handle in the map, the handle of the
    response is overwritten with the virtual handle, the entry is recorded at
    \<open>entry_count\<close>, which is incremented, and every virtual handle bound in the map
    lies again below the next one to hand out;
  \<^item> if the response reports a handle with the transient type byte and the map has
    used up its transient range, the process is aborted;
  \<^item> in every other case the response and the world are unchanged, and so are
    \<open>entry_count\<close> and the entries recorded so far.
\<close>

theorem response_virtualization:
  assumes "entry_count < length entries"
  shows "(rsp_has_handle response
          \<and> drop_bit HR_SHIFT (rsp_handle response) = TPM_HT_TRANSIENT
          \<and> drop_bit HR_SHIFT (hm_next_vhandle (w_trans_map w (rsp_connection response)))
               = TPM_HT_TRANSIENT
          \<and> vhandles_below_next (w_trans_map w (rsp_connection response))
        \<longrightarrow> map_of (hm_table (w_trans_map w (rsp_connection response)))
               (hm_next_vhandle (w_trans_map w (rsp_connection response))) = None
          \<and> virtualize_response response entries entry_count w =
            Inr (response\<lparr>rsp_handle := hm_next_vhandle (w_trans_map w (rsp_connection response))\<rparr>,
                 entries[entry_count := Ptr (w_heap_next w)], entry_count + 1,
                 w\<lparr>w_heap_next := w_heap_next w + 1,
                    w_trans_map := (w_trans_map w)(rsp_connection response :=
                        (w_trans_map w (rsp_connection response))
                          \<lparr>hm_next_vhandle :=
                              hm_next_vhandle (w_trans_map w (rsp_connection response)) + 1,
                           hm_table := hm_table (w_trans_map w (rsp_connection response)) @
                              [(hm_next_vhandle (w_trans_map w (rsp_connection response)),
                                w_heap_next w)]\<rparr>),
                    w_heap := (w_heap w)(w_heap_next w :=
                        \<lparr>e_phandle = rsp_handle response,
                         e_vhandle = hm_next_vhandle (w_trans_map w (rsp_connection response)),
                         e_context = [], e_refcount = 2\<rparr>)\<rparr>)
          \<and> vhandles_below_next
               ((w_trans_map w (rsp_connection response))
                  \<lparr>hm_next_vhandle :=
                      hm_next_vhandle (w_trans_map w (rsp_connection response)) + 1,
                   hm_table := hm_table (w_trans_map w (rsp_connection response)) @
                      [(hm_next_vhandle (w_trans_map w (rsp_connection response)),
                        w_heap_next w)]\<rparr>))
       \<and> (rsp_has_handle response
          \<and> drop_bit HR_SHIFT (rsp_handle response) = TPM_HT_TRANSIENT
          \<and> drop_bit HR_SHIFT (hm_next_vhandle (w_trans_map w (rsp_connection response)))
               \<noteq> TPM_HT_TRANSIENT
        \<longrightarrow> virtualize_response response entries entry_count w = Inl Aborted)
       \<and> (\<not> (rsp_has_handle response
              \<and> drop_bit HR_SHIFT (rsp_handle response) = TPM_HT_TRANSIENT)
        \<longrightarrow> (\<exists>es. virtualize_response response entries entry_count w
                     = Inr (response, es, entry_count, w)
                 \<and> (\<forall>i<entry_count. es ! i = entries ! i)))"
proof (intro conjI impI)
  assume a: "rsp_has_handle response
          \<and> drop_bit HR_SHIFT (rsp_handle response) = TPM_HT_TRANSIENT
          \<and> drop_bit HR_SHIFT (hm_next_vhandle (w_trans_map w (rsp_connection response)))
               = TPM_HT_TRANSIENT
          \<and> vhandles_below_next (w_trans_map w (rsp_connection response))"
  then have nz: "hm_next_vhandle (w_trans_map w (rsp_connection response)) \<noteq> 0"
    by (simp add: transient_nonzero)
  from a show fresh: "map_of (hm_table (w_trans_map w (rsp_connection response)))
               (hm_next_vhandle (w_trans_map w (rsp_connection response))) = None"
    by (simp add: next_vhandle_unbound)
  from a nz fresh assms
  show "virtualize_response response entries entry_count w =
            Inr (response\<lparr>rsp_handle := hm_next_vhandle (w_trans_map w (rsp_connection response))\<rparr>,
                 entries[entry_count := Ptr (w_heap_next w)], entry_count + 1,
                 w\<lparr>w_heap_next := w_heap_next w + 1,
                    w_trans_map := (w_trans_map w)(rsp_connection response :=
                        (w_trans_map w (rsp_connection response))
                          \<lparr>hm_next_vhandle :=
                              hm_next_vhandle (w_trans_map w (rsp_connection response)) + 1,
                           hm_table := hm_table (w_trans_map w (rsp_connection response)) @
                              [(hm_next_vhandle (w_trans_map w (rsp_connection response)),
                                w_heap_next w)]\<rparr>),
                    w_heap := (w_heap w)(w_heap_next w :=
                        \<lparr>e_phandle = rsp_handle response,
                         e_vhandle = hm_next_vhandle (w_trans_map w (rsp_connection response)),
                         e_context = [], e_refcount = 2\<rparr>)\<rparr>)"
    by (simp add: virtualize_response_def resource_manager_virtualize_handle_def Let_def
      handle_map_entry_new_def handle_map_next_vhandle_def handle_map_insert_def g_object_ref_def
      numeral_2_eq_2)
  from a show "vhandles_below_next
               ((w_trans_map w (rsp_connection response))
                  \<lparr>hm_next_vhandle :=
                      hm_next_vhandle (w_trans_map w (rsp_connection response)) + 1,
                   hm_table := hm_table (w_trans_map w (rsp_connection response)) @
                      [(hm_next_vhandle (w_trans_map w (rsp_connection response)),
                        w_heap_next w)]\<rparr>)"
    by (simp add: below_next_insert)
next
  assume "rsp_has_handle response
          \<and> drop_bit HR_SHIFT (rsp_handle response) = TPM_HT_TRANSIENT
          \<and> drop_bit HR_SHIFT (hm_next_vhandle (w_trans_map w (rsp_connection response)))
               \<noteq> TPM_HT_TRANSIENT"
  then show "virtualize_response response entries entry_count w = Inl Aborted"
    by (simp add: virtualize_response_def resource_manager_virtualize_handle_def Let_def
      handle_map_next_vhandle_def)
next
  assume "\<not> (rsp_has_handle response
              \<and> drop_bit HR_SHIFT (rsp_handle response) = TPM_HT_TRANSIENT)"
  with assms show "\<exists>es. virtualize_response response entries entry_count w
                     = Inr (response, es, entry_count, w)
                 \<and> (\<forall>i<entry_count. es ! i = entries ! i)"
    by (auto simp: virtualize_response_def resource_manager_virtualize_handle_def Let_def)
qed

theorem response_virtualization_witness:
  "(0 :: nat) < length (replicate ENTRY_COUNT Uninit)
   \<and> rsp_has_handle (example_response (example_command TPM_CC_CreatePrimary 1 0x40000001))
   \<and> drop_bit HR_SHIFT (rsp_handle (example_response (example_command TPM_CC_CreatePrimary 1 0x40000001)))
       = TPM_HT_TRANSIENT
   \<and> drop_bit HR_SHIFT (hm_next_vhandle (w_trans_map (example_world 0 27 0x80000001) 1))
       = TPM_HT_TRANSIENT
   \<and> vhandles_below_next (w_trans_map (example_world 0 27 0x80000001) 1)
   \<and> map_of (hm_table (w_trans_map (example_world 0 27 0x80000001) 1)) 0x80000001 = None
   \<and> (\<exists>w'. virtualize_response (example_response (example_command TPM_CC_CreatePrimary 1 0x40000001))
              (replicate ENTRY_COUNT Uninit) 0 (example_world 0 27 0x80000001)
            = Inr ((example_response (example_command TPM_CC_CreatePrimary 1 0x40000001))
                     \<lparr>rsp_handle := 0x80000001\<rparr>,
                   [Ptr 1, Uninit, Uninit, Uninit], 1, w')
          \<and> hm_table (w_trans_map w' 1) = [(0x80000000, 0), (0x80000001, 1)]
          \<and> hm_next_vhandle (w_trans_map w' 1) = 0x80000002
          \<and> vhandles_below_next (w_trans_map w' 1)
          \<and> e_phandle (w_heap w' 1) = 0x80FFFFFF \<and> e_vhandle (w_heap w' 1) = 0x80000001)
   \<and> drop_bit HR_SHIFT (hm_next_vhandle (w_trans_map (example_world 0 27 0x81000000) 1))
       \<noteq> TPM_HT_TRANSIENT
   \<and> virtualize_response (example_response (example_command TPM_CC_CreatePrimary 1 0x40000001))
        (replicate ENTRY_COUNT Uninit) 0 (example_world 0 27 0x81000000) = Inl Aborted
   \<and> \<not> rsp_has_handle (example_response (example_command 0x173 1 0x80000000))
   \<and> (\<exists>es. virtualize_response (example_response (example_command 0x173 1 0x80000000))
              (replicate ENTRY_COUNT Uninit) 0 (example_world 0 27 0x80000001)
            = Inr (example_response (example_command 0x173 1 0x80000000),
                   es, 0, example_world 0 27 0x80000001))"
proof -
  have len: "(0 :: nat) < length (replicate ENTRY_COUNT Uninit)"
    by (simp add: ENTRY_COUNT_def)
  show ?thesis
    using response_virtualization [OF len,
        of "example_response (example_command TPM_CC_CreatePrimary 1 0x40000001)"
        "example_world 0 27 0x80000001"]
      response_virtualization [OF len,
        of "example_response (example_command TPM_CC_CreatePrimary 1 0x40000001)"
        "example_world 0 27 0x81000000"]
      response_virtualization [OF len,
        of "example_response (example_command 0x173 1 0x80000000)"
        "example_world 0 27 0x80000001"]
    by (simp add: example_defs const_defs transient_numerals replicate_entries
        vhandles_below_next_def)
qed


subsection \<open>Every command keeps the invariant of the allocator\<close>

text \<open>
  A map with no binding has the invariant, and the processing of a command keeps it
  for the map of every connection: the loads and the saves change entries, not maps,
  \<^verbatim>\<open>FlushContext\<close> only removes a binding, and the transformation of the response
  binds the handle that the allocator has just handed out.
\<close>

lemma load_contexts_body_maps:
  "load_contexts_body ab c hs i (rc, es, n, cmd, w) = Inr (rc', es', n', cmd', w')
   \<Longrightarrow> w_trans_map w' = w_trans_map w"
  by (auto simp: load_contexts_body_def handle_map_vlookup_def resource_manager_virt_to_phys_def
      access_broker_context_load_def g_warning_def g_object_ref_def handle_map_entry_set_phandle_def
      split: option.splits prod.splits if_splits)

lemma load_contexts_loop_maps:
  "load_contexts_loop ab c hs i hc (rc, es, n, cmd, w) = Inr (rc', es', n', cmd', w')
   \<Longrightarrow> w_trans_map w' = w_trans_map w"
proof (induction k \<equiv> "hc - i" arbitrary: i rc es n cmd w)
  case 0
  then show ?case by (simp add: load_contexts_loop.simps)
next
  case (Suc k)
  then have lt: "i < hc" and k: "k = hc - (i + 1)" by simp_all
  from Suc.prems lt obtain rc1 es1 n1 cmd1 w1 where
    body: "load_contexts_body ab c hs i (rc, es, n, cmd, w) = Inr (rc1, es1, n1, cmd1, w1)"
    and rest: "load_contexts_loop ab c hs (i + 1) hc (rc1, es1, n1, cmd1, w1)
                 = Inr (rc', es', n', cmd', w')"
    by (subst (asm) load_contexts_loop.simps) (auto split: sum.splits)
  from Suc.hyps(1) [OF k rest] load_contexts_body_maps [OF body]
  show ?case by simp
qed

lemma load_contexts_maps:
  "resource_manager_load_contexts hdr ab command es n w = Inr (rc', es', n', cmd', w')
   \<Longrightarrow> w_trans_map w' = w_trans_map w"
  by (auto simp: resource_manager_load_contexts_def Let_def g_warning_def
      dest: load_contexts_loop_maps split: if_splits)

lemma flushsave_body_maps:
  "flushsave_body ab es i w = Inr w' \<Longrightarrow> w_trans_map w' = w_trans_map w"
  by (auto simp: flushsave_body_def resource_manager_flushsave_context_def Let_def
      access_broker_context_saveflush_def g_warning_def g_object_unref_def
      handle_map_entry_set_phandle_def
      split: slot.splits prod.splits if_splits)

lemma flushsave_loop_maps:
  "flushsave_loop ab es i n w = Inr w' \<Longrightarrow> w_trans_map w' = w_trans_map w"
proof (induction k \<equiv> "n - i" arbitrary: i w)
  case 0
  then show ?case by (simp add: flushsave_loop.simps)
next
  case (Suc k)
  then have lt: "i < n" and k: "k = n - (i + 1)" by simp_all
  from Suc.prems lt obtain w1 where
    body: "flushsave_body ab es i w = Inr w1"
    and rest: "flushsave_loop ab es (i + 1) n w1 = Inr w'"
    by (subst (asm) flushsave_loop.simps) (auto split: sum.splits)
  from Suc.hyps(1) [OF k rest] flushsave_body_maps [OF body]
  show ?case by simp
qed

lemma virtualize_response_below_next:
  assumes "virtualize_response response es n w = Inr (response', es', n', w')"
    and "vhandles_below_next (w_trans_map w c)"
  shows "vhandles_below_next (w_trans_map w' c)"
  using assms below_next_insert [of "w_trans_map w (rsp_connection response)" "w_heap_next w"]
    next_vhandle_unbound [of "w_trans_map w (rsp_connection response)"]
  by (auto simp: virtualize_response_def resource_manager_virtualize_handle_def Let_def
      handle_map_next_vhandle_def handle_map_entry_new_def handle_map_insert_def
      g_object_ref_def
      split: if_splits sum.splits prod.splits option.splits)

lemma flush_context_below_next:
  assumes "resource_manager_flush_context hdr ab command w = (response, w')"
    and "vhandles_below_next (w_trans_map w c)"
  shows "vhandles_below_next (w_trans_map w' c)"
  using assms below_next_remove [of "w_trans_map w (cmd_connection command)"
      "\<lambda>b. fst b \<noteq> cmd_flush_handle command"]
  by (auto simp: resource_manager_flush_context_def Let_def handle_map_vlookup_def
      handle_map_remove_def g_object_ref_def g_object_unref_def g_warning_def
      access_broker_send_command_def
      split: if_splits prod.splits option.splits)

lemma command_switch_below_next:
  assumes "command_switch hdr ab command es n w = Inr (response, es', n', w')"
    and "vhandles_below_next (w_trans_map w c)"
  shows "vhandles_below_next (w_trans_map w' c)"
proof (cases "cmd_code command = TPM_CC_FlushContext")
  case True
  with assms(1) have "resource_manager_flush_context hdr ab command w = (response, w')"
    by (auto simp: command_switch_def split: prod.splits)
  from flush_context_below_next [OF this assms(2)] show ?thesis .
next
  case False
  with assms(1) obtain rc0 es1 n1 cmd1 w1 r rc w2 rsp w3 rsp1 where
    l: "(if unat (cmd_handle_count command) > 0
         then resource_manager_load_contexts hdr ab command es n w
         else Inr (TSS2_RC_SUCCESS, es, 0, command, w)) = Inr (rc0, es1, n1, cmd1, w1)"
    and s: "access_broker_send_command ab cmd1 w1 = ((r, rc), w2)"
    and n: "(case r of None \<Rightarrow> (tpm2_response_new_rc (cmd_connection command) rc,
                                    g_warning (WarnSendError rc) w2)
                     | Some response \<Rightarrow> (response, w2)) = (rsp, w3)"
    and v: "virtualize_response rsp es1 n1 w3 = Inr (rsp1, es', n', w')"
    by (auto simp: command_switch_def split: sum.splits prod.splits)
  from l have "w_trans_map w1 = w_trans_map w"
    by (auto dest: load_contexts_maps split: if_splits)
  moreover from s have "w_trans_map w2 = w_trans_map w1"
    by (auto simp: access_broker_send_command_def split: prod.splits)
  moreover from n have "w_trans_map w3 = w_trans_map w2"
    by (auto simp: g_warning_def split: option.splits)
  ultimately have "vhandles_below_next (w_trans_map w3 c)"
    using assms(2) by simp
  from virtualize_response_below_next [OF v this] show ?thesis .
qed

lemma process_tpm2_command_below_next:
  assumes "resource_manager_process_tpm2_command hdr ab command w = Inr w'"
    and "vhandles_below_next (w_trans_map w c)"
  shows "vhandles_below_next (w_trans_map w' c)"
proof (cases "resource_manager_is_over_object_quota command w")
  case True
  with assms show ?thesis
    by (auto simp: resource_manager_process_tpm2_command_def sink_enqueue_def)
next
  case False
  with assms(1) obtain response es n w1 where
    sw: "command_switch hdr ab command (replicate ENTRY_COUNT Uninit) (ENTRY_COUNT - 1) w
           = Inr (response, es, n, w1)"
    and fl: "flushsave_loop ab es 0 n (sink_enqueue response w1) = Inr w'"
    by (auto simp: resource_manager_process_tpm2_command_def split: sum.splits prod.splits)
  from flushsave_loop_maps [OF fl] have "w_trans_map w' = w_trans_map w1"
    by (simp add: sink_enqueue_def)
  with command_switch_below_next [OF sw assms(2)] show ?thesis by simp
qed

lemma empty_map_below_next:
  "hm_table m = [] \<Longrightarrow> vhandles_below_next m"
  by (simp add: vhandles_below_next_def)


subsection \<open>The array of entries\<close>

lemma virtualize_response_entries:
  assumes "n < length es" and "\<forall>j<n. \<exists>p. es ! j = Ptr p"
  shows "case virtualize_response resp es n w of
           Inl f \<Rightarrow> f = Aborted
         | Inr (r', es', n', w') \<Rightarrow>
             length es' = length es \<and> n \<le> n' \<and> n' \<le> n + 1 \<and> (\<forall>j<n'. \<exists>p. es' ! j = Ptr p)"
  using assms
  by (auto simp: virtualize_response_def resource_manager_virtualize_handle_def Let_def
      handle_map_entry_new_def nth_list_update less_Suc_eq
      split: prod.splits sum.splits)

lemma flushsave_loop_total:
  "n \<le> length es \<Longrightarrow> \<forall>j<n. \<exists>p. es ! j = Ptr p \<Longrightarrow> \<exists>w'. flushsave_loop ab es i n w = Inr w'"
proof (induction k \<equiv> "n - i" arbitrary: i w)
  case 0
  then show ?case by (simp add: flushsave_loop.simps)
next
  case (Suc k)
  then have lt: "i < n" and k: "k = n - (i + 1)" by simp_all
  with Suc.prems obtain p where p: "es ! i = Ptr p" and "i < length es" by auto
  then have "flushsave_body ab es i w =
      Inr (g_object_unref p (snd (resource_manager_flushsave_context ab p w)))"
    by (simp add: flushsave_body_def)
  moreover from Suc.hyps(1) [OF k Suc.prems]
  obtain w' where "flushsave_loop ab es (i + 1) n
      (g_object_unref p (snd (resource_manager_flushsave_context ab p w))) = Inr w'"
    by blast
  ultimately show ?case
    using lt by (subst flushsave_loop.simps) simp
qed

text \<open>
  The \<^verbatim>\<open>default\<close> case of the \<^verbatim>\<open>switch\<close>, for a command with at most three
  handles: the loop over the handles returns, the access broker is called, and what
  follows is the transformation of the response that the call produced.
\<close>

lemma command_switch_default:
  assumes "cmd_code command \<noteq> TPM_CC_FlushContext"
    and "unat (cmd_handle_count command) \<le> k" and "k \<le> 3" and "k < length es0"
  obtains rc0 es1 n1 c1 w1 resp w3 where
    "load_contexts_loop ab (cmd_connection command) (cmd_handles command) 0
       (unat (cmd_handle_count command)) (TSS2_RC_SUCCESS, es0, 0, command, w)
       = Inr (rc0, es1, n1, c1, w1)"
    and "length es1 = length es0" and "n1 \<le> unat (cmd_handle_count command)"
    and "\<forall>j<n1. \<exists>p. es1 ! j = Ptr p"
    and "w_heap w3 = w_heap w1"
    and "command_switch hdr ab command es0 k w =
      (case virtualize_response resp es1 n1 w3 of
         Inl f \<Rightarrow> Inl f
       | Inr (response1, es2, n2, w4) \<Rightarrow> Inr (Some response1, es2, n2, w4))"
proof -
  let ?hc = "unat (cmd_handle_count command)"
  let ?loop = "load_contexts_loop ab (cmd_connection command) (cmd_handles command) 0 ?hc
       (TSS2_RC_SUCCESS, es0, 0, command, w)"
  have loaded: "(if ?hc > 0 then resource_manager_load_contexts hdr ab command es0 k w
     else Inr (TSS2_RC_SUCCESS, es0, 0, command, w)) = ?loop"
  proof (cases "?hc > 0")
    case True
    then show ?thesis using assms(2,3) by (simp add: resource_manager_load_contexts_def)
  next
    case False
    then show ?thesis by (subst load_contexts_loop.simps) simp
  qed
  have "0 + (?hc - 0) \<le> length es0" using assms(2-4) by simp
  from load_contexts_loop_entries [OF this, of ab "cmd_connection command" "cmd_handles command"
      TSS2_RC_SUCCESS command w]
  obtain rc0 es1 n1 c1 w1 where l: "?loop = Inr (rc0, es1, n1, c1, w1)"
    and len: "length es1 = length es0" and n1: "n1 \<le> ?hc"
    and init: "\<forall>j<n1. \<exists>p. es1 ! j = Ptr p"
    by auto
  obtain r rc w2 where s: "access_broker_send_command ab c1 w1 = ((r, rc), w2)"
    by (metis prod.exhaust)
  then have h2: "w_heap w2 = w_heap w1"
    by (auto simp: access_broker_send_command_def split: prod.splits)
  define rw where "rw = (case r of
      None \<Rightarrow> (tpm2_response_new_rc (cmd_connection command) rc, g_warning (WarnSendError rc) w2)
    | Some response \<Rightarrow> (response, w2))"
  have h3: "w_heap (snd rw) = w_heap w1"
    using h2 by (simp add: rw_def g_warning_def split: option.splits)
  have eq: "command_switch hdr ab command es0 k w =
      (case virtualize_response (fst rw) es1 n1 (snd rw) of
         Inl f \<Rightarrow> Inl f
       | Inr (response1, entries2, entry_count2, w4) \<Rightarrow>
           Inr (Some response1, entries2, entry_count2, w4))"
    unfolding command_switch_def loaded rw_def
    using assms(1) l s by (simp split: prod.splits)
  from l len n1 init h3 eq show thesis by (rule that)
qed

lemma command_switch_entries:
  assumes "cmd_code command \<noteq> TPM_CC_FlushContext"
    and "unat (cmd_handle_count command) \<le> k" and "k \<le> 3" and "k < length es0"
  shows "case command_switch hdr ab command es0 k w of
           Inl f \<Rightarrow> f = Aborted
         | Inr (response, es, n, w1) \<Rightarrow>
             length es = length es0 \<and> n \<le> unat (cmd_handle_count command) + 1
             \<and> (\<forall>j<n. \<exists>p. es ! j = Ptr p)"
proof -
  obtain rc0 es1 n1 c1 w1 resp w3 where
    l: "load_contexts_loop ab (cmd_connection command) (cmd_handles command) 0
       (unat (cmd_handle_count command)) (TSS2_RC_SUCCESS, es0, 0, command, w)
       = Inr (rc0, es1, n1, c1, w1)"
    and len: "length es1 = length es0" and n1: "n1 \<le> unat (cmd_handle_count command)"
    and init: "\<forall>j<n1. \<exists>p. es1 ! j = Ptr p"
    and h3: "w_heap w3 = w_heap w1"
    and eq: "command_switch hdr ab command es0 k w =
      (case virtualize_response resp es1 n1 w3 of
         Inl f \<Rightarrow> Inl f
       | Inr (response1, es2, n2, w4) \<Rightarrow> Inr (Some response1, es2, n2, w4))"
    by (rule command_switch_default [OF assms, of ab w hdr])
  have "n1 < length es1" using n1 len assms(2-4) by simp
  from virtualize_response_entries [OF this init, of resp w3]
  show ?thesis
    unfolding eq using len n1 by (auto split: sum.splits)
qed

text \<open>
  Claim C10. For a command that is not \<^verbatim>\<open>FlushContext\<close>, has at most three handles and
  passes the quota gate:
  \<^item> the processing never ends in an index outside an array or in a read of an
    element that was never written (the only way in which it does not return is the
    abort of line 226);
  \<^item> \<^verbatim>\<open>resource_manager_load_contexts\<close> returns, and leaves in \<open>*entry_count\<close> the
    number of context loads that succeeded (the loads called minus the loads whose
    failure was logged), which is at most the handle count; the array keeps its four
    elements, and the elements below \<open>*entry_count\<close> are pointers to entries;
  \<^item> when control reaches line 423, \<open>entry_count\<close> is at most the handle count plus
    one, hence at most four, and every element below it is a pointer to an entry;
  \<^item> the transformation of the response stores at an index inside the array and
    adds at most one to \<open>entry_count\<close>.
\<close>

theorem touched_entries_stay_in_bounds:
  assumes "cmd_code command \<noteq> TPM_CC_FlushContext"
    and "\<not> resource_manager_is_over_object_quota command w"
    and "unat (cmd_handle_count command) \<le> 3"
  shows "(\<forall>f. resource_manager_process_tpm2_command hdr ab command w = Inl f \<longrightarrow> f = Aborted)
       \<and> (\<exists>rc es n c w' cs ws.
             resource_manager_load_contexts hdr ab command (replicate ENTRY_COUNT Uninit)
               (ENTRY_COUNT - 1) w = Inr (rc, es, n, c, w')
           \<and> length es = ENTRY_COUNT \<and> n \<le> unat (cmd_handle_count command)
           \<and> (\<forall>j<n. \<exists>p. es ! j = Ptr p)
           \<and> w_calls w' = w_calls w @ cs \<and> w_warnings w' = w_warnings w @ ws
           \<and> n + load_failures ws = load_calls cs)
       \<and> (\<forall>response es n w1.
             command_switch hdr ab command (replicate ENTRY_COUNT Uninit) (ENTRY_COUNT - 1) w
               = Inr (response, es, n, w1)
             \<longrightarrow> length es = ENTRY_COUNT \<and> n \<le> unat (cmd_handle_count command) + 1
                 \<and> (\<forall>j<n. \<exists>p. es ! j = Ptr p))
       \<and> (\<forall>response es n w0 response1 es1 n1 w1.
             n < length es \<and> virtualize_response response es n w0 = Inr (response1, es1, n1, w1)
             \<longrightarrow> length es1 = length es \<and> n \<le> n1 \<and> n1 \<le> n + 1)"
proof -
  define E where "E = replicate ENTRY_COUNT Uninit"
  define k where "k = ENTRY_COUNT - 1"
  have k: "unat (cmd_handle_count command) \<le> k" "k \<le> 3" "k < length E" and E: "length E = ENTRY_COUNT"
    using assms(3) by (simp_all add: k_def E_def ENTRY_COUNT_def)
  note sw = command_switch_entries [OF assms(1) k, of hdr ab w]
  have no_fault: "\<forall>f. resource_manager_process_tpm2_command hdr ab command w = Inl f \<longrightarrow> f = Aborted"
  proof (intro allI impI)
    fix f
    assume f: "resource_manager_process_tpm2_command hdr ab command w = Inl f"
    show "f = Aborted"
    proof (cases "command_switch hdr ab command E k w")
      case (Inl g)
      with sw have "g = Aborted" by simp
      with Inl f assms(2) show ?thesis
        by (simp add: resource_manager_process_tpm2_command_def E_def k_def)
    next
      case (Inr x)
      obtain response es n w1 where x: "x = (response, es, n, w1)"
        by (metis prod.exhaust)
      with Inr sw
      have es: "length es = length E" "n \<le> unat (cmd_handle_count command) + 1"
        and init: "\<forall>j<n. \<exists>p. es ! j = Ptr p" by simp_all
      with assms(3) E have "n \<le> length es" by (simp add: ENTRY_COUNT_def)
      from flushsave_loop_total [OF this init, of ab 0 "sink_enqueue response w1"]
      show ?thesis
        using Inr x f assms(2) by (auto simp: resource_manager_process_tpm2_command_def E_def k_def)
    qed
  qed
  have switch: "\<forall>response es n w1.
             command_switch hdr ab command E k w = Inr (response, es, n, w1)
             \<longrightarrow> length es = ENTRY_COUNT \<and> n \<le> unat (cmd_handle_count command) + 1
                 \<and> (\<forall>j<n. \<exists>p. es ! j = Ptr p)"
    using sw E by (auto split: sum.splits)
  have virt: "\<forall>response es n w0 response1 es1 n1 w1.
             n < length es \<and> virtualize_response response es n w0 = Inr (response1, es1, n1, w1)
             \<longrightarrow> length es1 = length es \<and> n \<le> n1 \<and> n1 \<le> n + 1"
    by (auto simp: virtualize_response_def split: if_splits sum.splits prod.splits)
  from no_fault load_contexts_entries [OF k, of hdr ab w] switch virt E
  show ?thesis unfolding E_def k_def by simp
qed

theorem touched_entries_stay_in_bounds_witness:
  "cmd_code (example_command 0x173 1 0x80000000) \<noteq> TPM_CC_FlushContext
   \<and> \<not> resource_manager_is_over_object_quota (example_command 0x173 1 0x80000000)
         (example_world 0 27 0x80000001)
   \<and> unat (cmd_handle_count (example_command 0x173 1 0x80000000)) \<le> 3
   \<and> resource_manager_process_tpm2_command example_headers (example_broker 0 True 0)
        (example_command 0x173 1 0x80000000) (example_world 0 27 0x80000001) \<noteq> Inl OutOfBounds
   \<and> resource_manager_process_tpm2_command example_headers (example_broker 0 True 0)
        (example_command 0x173 1 0x80000000) (example_world 0 27 0x80000001) \<noteq> Inl Uninitialised"
proof -
  have h1: "cmd_code (example_command 0x173 1 0x80000000) \<noteq> TPM_CC_FlushContext"
    by (simp add: example_command_def TPM_CC_FlushContext_def)
  have h2: "\<not> resource_manager_is_over_object_quota (example_command 0x173 1 0x80000000)
         (example_world 0 27 0x80000001)"
    by (simp add: example_command_def resource_manager_is_over_object_quota_def const_defs)
  have h3: "unat (cmd_handle_count (example_command 0x173 1 0x80000000)) \<le> 3"
    by (simp add: example_command_def)
  from touched_entries_stay_in_bounds [OF h1 h2 h3, of example_headers
      "example_broker 0 True 0"]
  have "\<forall>f. resource_manager_process_tpm2_command example_headers (example_broker 0 True 0)
        (example_command 0x173 1 0x80000000) (example_world 0 27 0x80000001) = Inl f
      \<longrightarrow> f = Aborted"
    by (rule conjunct1)
  with h1 h2 h3 show ?thesis by auto
qed

subsection \<open>Evicting the contexts\<close>

lemma flushsave_context_transient:
  assumes "drop_bit HR_SHIFT (e_phandle (w_heap w p)) = TPM_HT_TRANSIENT"
    and "ab_context_saveflush ab (w_tpm w) (e_phandle (w_heap w p)) (e_context (w_heap w p))
           = ((rc, ctx), t)"
  shows "fst (resource_manager_flushsave_context ab p w) = rc"
    and "w_heap (snd (resource_manager_flushsave_context ab p w)) =
           (w_heap w)(p := (w_heap w p)
              \<lparr>e_phandle := (if rc = TSS2_RC_SUCCESS then 0 else e_phandle (w_heap w p)),
               e_context := ctx\<rparr>)"
    and "w_calls (snd (resource_manager_flushsave_context ab p w)) =
           w_calls w @ [ContextSaveFlush (e_phandle (w_heap w p))]"
    and "w_warnings (snd (resource_manager_flushsave_context ab p w)) =
           (if rc = TSS2_RC_SUCCESS then w_warnings w
            else w_warnings w @ [WarnSaveFlushFailed (e_phandle (w_heap w p)) rc])"
  using assms
  by (auto simp: resource_manager_flushsave_context_def access_broker_context_saveflush_def
      handle_map_entry_set_phandle_def g_warning_def Let_def
      intro!: HandleMapEntry.equality)

lemma flushsave_context_other:
  assumes "drop_bit HR_SHIFT (e_phandle (w_heap w p)) \<noteq> TPM_HT_TRANSIENT"
  shows "resource_manager_flushsave_context ab p w = (TSS2_RC_SUCCESS, w)"
  using assms by (simp add: resource_manager_flushsave_context_def Let_def)

lemma flushsave_body_effect:
  assumes "i < length es" and "es ! i = Ptr p"
  shows "\<exists>w1 cs ws. flushsave_body ab es i w = Inr w1
     \<and> w_calls w1 = w_calls w @ cs \<and> w_warnings w1 = w_warnings w @ ws
     \<and> (\<forall>q. q \<noteq> p \<longrightarrow> e_phandle (w_heap w1 q) = e_phandle (w_heap w q))
     \<and> (e_phandle (w_heap w1 p) = 0 \<or> e_phandle (w_heap w1 p) = e_phandle (w_heap w p))
     \<and> (drop_bit HR_SHIFT (e_phandle (w_heap w p)) = TPM_HT_TRANSIENT \<longrightarrow>
          ContextSaveFlush (e_phandle (w_heap w p)) \<in> set cs
          \<and> (e_phandle (w_heap w1 p) = 0
             \<or> (\<exists>rc. rc \<noteq> TSS2_RC_SUCCESS
                   \<and> WarnSaveFlushFailed (e_phandle (w_heap w1 p)) rc \<in> set ws)))
     \<and> (drop_bit HR_SHIFT (e_phandle (w_heap w p)) \<noteq> TPM_HT_TRANSIENT \<longrightarrow>
          e_phandle (w_heap w1 p) = e_phandle (w_heap w p))"
proof (cases "drop_bit HR_SHIFT (e_phandle (w_heap w p)) = TPM_HT_TRANSIENT")
  case True
  obtain rc ctx t where sf:
    "ab_context_saveflush ab (w_tpm w) (e_phandle (w_heap w p)) (e_context (w_heap w p))
       = ((rc, ctx), t)"
    by (metis prod.exhaust)
  note tr = True
  note fx = flushsave_context_transient [OF True sf]
  define w1 where "w1 = g_object_unref p (snd (resource_manager_flushsave_context ab p w))"
  have body: "flushsave_body ab es i w = Inr w1"
    using assms by (simp add: flushsave_body_def w1_def)
  have heap: "w_heap w1 = (w_heap (snd (resource_manager_flushsave_context ab p w)))
      (p := (w_heap (snd (resource_manager_flushsave_context ab p w)) p)
         \<lparr>e_refcount := e_refcount (w_heap (snd (resource_manager_flushsave_context ab p w)) p) - 1\<rparr>)"
    and calls: "w_calls w1 = w_calls w @ [ContextSaveFlush (e_phandle (w_heap w p))]"
    and warns: "w_warnings w1 = (if rc = TSS2_RC_SUCCESS then w_warnings w
            else w_warnings w @ [WarnSaveFlushFailed (e_phandle (w_heap w p)) rc])"
    by (simp_all add: w1_def g_object_unref_def fx)
  show ?thesis
  proof (cases "rc = TSS2_RC_SUCCESS")
    case True
    then show ?thesis
      using body heap calls warns fx(2) tr
      by (intro exI [of _ w1] exI [of _ "[ContextSaveFlush (e_phandle (w_heap w p))]"]
          exI [of _ "[]"]) simp
  next
    case False
    then show ?thesis
      using body heap calls warns fx(2) tr
      by (intro exI [of _ w1] exI [of _ "[ContextSaveFlush (e_phandle (w_heap w p))]"]
          exI [of _ "[WarnSaveFlushFailed (e_phandle (w_heap w p)) rc]"]) simp
  qed
next
  case False
  with assms show ?thesis
    by (simp add: flushsave_body_def flushsave_context_other g_object_unref_def)
qed

text \<open>
  The loop over the entries recorded, started where every one of them has a physical
  handle that is zero or transient: it returns; it only ever sets physical handles to
  zero; for every entry from index \<open>i\<close> on, a save of its handle was called if the
  handle was transient, and at the end its handle is zero or a failed save of that
  handle was logged. The same entry may be recorded more than once.
\<close>

lemma flushsave_loop_evicts:
  assumes "n \<le> length es"
    and "\<forall>j<n. \<exists>p. es ! j = Ptr p
           \<and> (e_phandle (w_heap w p) = 0
              \<or> drop_bit HR_SHIFT (e_phandle (w_heap w p)) = TPM_HT_TRANSIENT)"
  shows "\<exists>w' cs ws. flushsave_loop ab es i n w = Inr w'
     \<and> w_calls w' = w_calls w @ cs \<and> w_warnings w' = w_warnings w @ ws
     \<and> (\<forall>q. e_phandle (w_heap w' q) = 0 \<or> e_phandle (w_heap w' q) = e_phandle (w_heap w q))
     \<and> (\<forall>j. i \<le> j \<and> j < n \<longrightarrow> (\<exists>p. es ! j = Ptr p
           \<and> (drop_bit HR_SHIFT (e_phandle (w_heap w p)) = TPM_HT_TRANSIENT
                \<longrightarrow> ContextSaveFlush (e_phandle (w_heap w p)) \<in> set cs)
           \<and> (e_phandle (w_heap w' p) = 0
              \<or> (\<exists>rc. rc \<noteq> TSS2_RC_SUCCESS
                    \<and> WarnSaveFlushFailed (e_phandle (w_heap w' p)) rc \<in> set ws))))"
  using assms(2)
proof (induction k \<equiv> "n - i" arbitrary: i w)
  case 0
  then have "flushsave_loop ab es i n w = Inr w"
    by (simp add: flushsave_loop.simps)
  moreover from 0 have "\<forall>j. \<not> (i \<le> j \<and> j < n)" by simp
  ultimately show ?case by auto
next
  case (Suc k)
  then have lt: "i < n" and k: "k = n - (i + 1)" by simp_all
  from Suc.prems lt obtain p where p: "es ! i = Ptr p"
    and pz: "e_phandle (w_heap w p) = 0
      \<or> drop_bit HR_SHIFT (e_phandle (w_heap w p)) = TPM_HT_TRANSIENT"
    by blast
  have ilen: "i < length es" using lt assms(1) by simp
  from flushsave_body_effect [OF ilen p, of ab w]
  obtain w1 cs1 ws1 where body: "flushsave_body ab es i w = Inr w1"
    and c1: "w_calls w1 = w_calls w @ cs1" and wn1: "w_warnings w1 = w_warnings w @ ws1"
    and frame1: "\<forall>q. q \<noteq> p \<longrightarrow> e_phandle (w_heap w1 q) = e_phandle (w_heap w q)"
    and same1: "e_phandle (w_heap w1 p) = 0 \<or> e_phandle (w_heap w1 p) = e_phandle (w_heap w p)"
    and tr1: "drop_bit HR_SHIFT (e_phandle (w_heap w p)) = TPM_HT_TRANSIENT \<longrightarrow>
          ContextSaveFlush (e_phandle (w_heap w p)) \<in> set cs1
          \<and> (e_phandle (w_heap w1 p) = 0
             \<or> (\<exists>rc. rc \<noteq> TSS2_RC_SUCCESS
                   \<and> WarnSaveFlushFailed (e_phandle (w_heap w1 p)) rc \<in> set ws1))"
    and nt1: "drop_bit HR_SHIFT (e_phandle (w_heap w p)) \<noteq> TPM_HT_TRANSIENT \<longrightarrow>
          e_phandle (w_heap w1 p) = e_phandle (w_heap w p)"
    by blast
  have frame: "\<forall>q. e_phandle (w_heap w1 q) = 0 \<or> e_phandle (w_heap w1 q) = e_phandle (w_heap w q)"
    using frame1 same1 by metis
  have pre1: "\<forall>j<n. \<exists>q. es ! j = Ptr q
           \<and> (e_phandle (w_heap w1 q) = 0
              \<or> drop_bit HR_SHIFT (e_phandle (w_heap w1 q)) = TPM_HT_TRANSIENT)"
    using Suc.prems frame by metis
  from Suc.hyps(1) [OF k pre1]
  obtain w' cs' ws' where rest: "flushsave_loop ab es (i + 1) n w1 = Inr w'"
    and c2: "w_calls w' = w_calls w1 @ cs'" and wn2: "w_warnings w' = w_warnings w1 @ ws'"
    and frame2: "\<forall>q. e_phandle (w_heap w' q) = 0 \<or> e_phandle (w_heap w' q) = e_phandle (w_heap w1 q)"
    and fin2: "\<forall>j. i + 1 \<le> j \<and> j < n \<longrightarrow> (\<exists>q. es ! j = Ptr q
           \<and> (drop_bit HR_SHIFT (e_phandle (w_heap w1 q)) = TPM_HT_TRANSIENT
                \<longrightarrow> ContextSaveFlush (e_phandle (w_heap w1 q)) \<in> set cs')
           \<and> (e_phandle (w_heap w' q) = 0
              \<or> (\<exists>rc. rc \<noteq> TSS2_RC_SUCCESS
                    \<and> WarnSaveFlushFailed (e_phandle (w_heap w' q)) rc \<in> set ws')))"
    by blast
  have step: "flushsave_loop ab es i n w = Inr w'"
    using lt body rest by (subst flushsave_loop.simps) simp
  have zero: "drop_bit HR_SHIFT (0 :: 32 word) \<noteq> TPM_HT_TRANSIENT"
    by (rule transient_numerals)
  have fin: "\<exists>q. es ! j = Ptr q
           \<and> (drop_bit HR_SHIFT (e_phandle (w_heap w q)) = TPM_HT_TRANSIENT
                \<longrightarrow> ContextSaveFlush (e_phandle (w_heap w q)) \<in> set (cs1 @ cs'))
           \<and> (e_phandle (w_heap w' q) = 0
              \<or> (\<exists>rc. rc \<noteq> TSS2_RC_SUCCESS
                    \<and> WarnSaveFlushFailed (e_phandle (w_heap w' q)) rc \<in> set (ws1 @ ws')))"
    if j: "i \<le> j \<and> j < n" for j
  proof (cases "j = i")
    case True
    have "e_phandle (w_heap w' p) = 0
              \<or> (\<exists>rc. rc \<noteq> TSS2_RC_SUCCESS
                    \<and> WarnSaveFlushFailed (e_phandle (w_heap w' p)) rc \<in> set (ws1 @ ws'))"
    proof (cases "e_phandle (w_heap w' p) = 0")
      case False
      with frame2 have eq: "e_phandle (w_heap w' p) = e_phandle (w_heap w1 p)" by metis
      with False have nz: "e_phandle (w_heap w1 p) \<noteq> 0" by simp
      with same1 have "e_phandle (w_heap w p) \<noteq> 0" by metis
      with pz have "drop_bit HR_SHIFT (e_phandle (w_heap w p)) = TPM_HT_TRANSIENT" by simp
      with tr1 nz obtain rc where "rc \<noteq> TSS2_RC_SUCCESS"
        "WarnSaveFlushFailed (e_phandle (w_heap w1 p)) rc \<in> set ws1" by blast
      with eq show ?thesis by auto
    qed simp
    with True p tr1 show ?thesis by auto
  next
    case False
    with j have "i + 1 \<le> j \<and> j < n" by simp
    with fin2 obtain q where q: "es ! j = Ptr q"
      and callq: "drop_bit HR_SHIFT (e_phandle (w_heap w1 q)) = TPM_HT_TRANSIENT
                \<longrightarrow> ContextSaveFlush (e_phandle (w_heap w1 q)) \<in> set cs'"
      and finq: "e_phandle (w_heap w' q) = 0
              \<or> (\<exists>rc. rc \<noteq> TSS2_RC_SUCCESS
                    \<and> WarnSaveFlushFailed (e_phandle (w_heap w' q)) rc \<in> set ws')"
      by blast
    have "drop_bit HR_SHIFT (e_phandle (w_heap w q)) = TPM_HT_TRANSIENT
                \<longrightarrow> ContextSaveFlush (e_phandle (w_heap w q)) \<in> set (cs1 @ cs')"
    proof (cases "q = p")
      case True
      with tr1 show ?thesis by simp
    next
      case False
      with frame1 have "e_phandle (w_heap w1 q) = e_phandle (w_heap w q)" by simp
      with callq show ?thesis by simp
    qed
    with q finq show ?thesis by auto
  qed
  have frame': "\<forall>q. e_phandle (w_heap w' q) = 0 \<or> e_phandle (w_heap w' q) = e_phandle (w_heap w q)"
    using frame frame2 by metis
  show ?case
    using step c1 c2 wn1 wn2 frame' fin
    by (intro exI [of _ w'] exI [of _ "cs1 @ cs'"] exI [of _ "ws1 @ ws'"]) simp
qed

lemma contract_load:
  assumes "loads_into_transient_slots ab"
    and "ab_context_load ab t ctx = ((TSS2_RC_SUCCESS, ph), t')"
  shows "drop_bit HR_SHIFT ph = TPM_HT_TRANSIENT"
  using assms(1) [unfolded loads_into_transient_slots_def, rule_format, of t ctx] assms(2)
  by simp

lemma load_contexts_body_transient:
  assumes "loads_into_transient_slots ab"
    and "load_contexts_body ab c hs i (rc, es, n, cmd, w) = Inr (rc', es', n', cmd', w')"
  shows "(\<forall>q. drop_bit HR_SHIFT (e_phandle (w_heap w q)) = TPM_HT_TRANSIENT
            \<longrightarrow> drop_bit HR_SHIFT (e_phandle (w_heap w' q)) = TPM_HT_TRANSIENT)
       \<and> (n' = n \<and> es' = es
          \<or> n' = n + 1 \<and> n < length es
            \<and> (\<exists>p. es' = es[n := Ptr p]
                  \<and> drop_bit HR_SHIFT (e_phandle (w_heap w' p)) = TPM_HT_TRANSIENT))"
  using assms(2) contract_load [OF assms(1)]
  by (auto simp: load_contexts_body_def handle_map_vlookup_def resource_manager_virt_to_phys_def
      access_broker_context_load_def g_warning_def g_object_ref_def handle_map_entry_set_phandle_def
      split: option.splits prod.splits if_splits)

lemma load_contexts_loop_transient:
  assumes "loads_into_transient_slots ab"
  shows "load_contexts_loop ab c hs i hc (rc, es, n, cmd, w) = Inr (rc', es', n', cmd', w') \<Longrightarrow>
     \<forall>j<n. \<exists>p. es ! j = Ptr p \<and> drop_bit HR_SHIFT (e_phandle (w_heap w p)) = TPM_HT_TRANSIENT \<Longrightarrow>
     \<forall>j<n'. \<exists>p. es' ! j = Ptr p \<and> drop_bit HR_SHIFT (e_phandle (w_heap w' p)) = TPM_HT_TRANSIENT"
proof (induction k \<equiv> "hc - i" arbitrary: i rc es n cmd w)
  case 0
  then have "load_contexts_loop ab c hs i hc (rc, es, n, cmd, w) = Inr (rc, es, n, cmd, w)"
    by (simp add: load_contexts_loop.simps)
  with 0 show ?case by simp
next
  case (Suc k)
  then have lt: "i < hc" and k: "k = hc - (i + 1)" by simp_all
  from Suc.prems(1) lt obtain rc1 es1 n1 cmd1 w1 where
    body: "load_contexts_body ab c hs i (rc, es, n, cmd, w) = Inr (rc1, es1, n1, cmd1, w1)"
    and rest: "load_contexts_loop ab c hs (i + 1) hc (rc1, es1, n1, cmd1, w1)
       = Inr (rc', es', n', cmd', w')"
    by (subst (asm) load_contexts_loop.simps) (auto split: sum.splits)
  from load_contexts_body_transient [OF assms body]
  have keep: "\<forall>q. drop_bit HR_SHIFT (e_phandle (w_heap w q)) = TPM_HT_TRANSIENT
            \<longrightarrow> drop_bit HR_SHIFT (e_phandle (w_heap w1 q)) = TPM_HT_TRANSIENT"
    and cnt: "n1 = n \<and> es1 = es
          \<or> n1 = n + 1 \<and> n < length es
            \<and> (\<exists>p. es1 = es[n := Ptr p]
                  \<and> drop_bit HR_SHIFT (e_phandle (w_heap w1 p)) = TPM_HT_TRANSIENT)"
    by blast+
  have "\<forall>j<n1. \<exists>p. es1 ! j = Ptr p \<and> drop_bit HR_SHIFT (e_phandle (w_heap w1 p)) = TPM_HT_TRANSIENT"
  proof (intro allI impI)
    fix j assume j: "j < n1"
    show "\<exists>p. es1 ! j = Ptr p \<and> drop_bit HR_SHIFT (e_phandle (w_heap w1 p)) = TPM_HT_TRANSIENT"
    proof (cases "j < n")
      case True
      with Suc.prems(2) keep obtain p where "es ! j = Ptr p"
        "drop_bit HR_SHIFT (e_phandle (w_heap w1 p)) = TPM_HT_TRANSIENT" by blast
      with True cnt show ?thesis by auto
    next
      case False
      with j cnt have jn: "j = n" and n1: "n1 = n + 1" by auto
      with cnt obtain p where "n < length es" "es1 = es[n := Ptr p]"
        "drop_bit HR_SHIFT (e_phandle (w_heap w1 p)) = TPM_HT_TRANSIENT" by auto
      with jn show ?thesis by simp
    qed
  qed
  from Suc.hyps(1) [OF k rest this] show ?case .
qed

lemma virtualize_response_transient:
  assumes "n < length es"
    and "virtualize_response resp es n w = Inr (r', es', n', w')"
    and "\<forall>j<n. \<exists>p. es ! j = Ptr p \<and> drop_bit HR_SHIFT (e_phandle (w_heap w p)) = TPM_HT_TRANSIENT"
  shows "\<forall>j<n'. \<exists>p. es' ! j = Ptr p \<and> drop_bit HR_SHIFT (e_phandle (w_heap w' p)) = TPM_HT_TRANSIENT"
  using assms
  by (auto simp: virtualize_response_def resource_manager_virtualize_handle_def Let_def
      handle_map_entry_new_def handle_map_next_vhandle_def handle_map_insert_def g_object_ref_def
      nth_list_update less_Suc_eq
      split: prod.splits sum.splits if_splits option.splits)

lemma command_switch_transient:
  assumes "cmd_code command \<noteq> TPM_CC_FlushContext"
    and "unat (cmd_handle_count command) \<le> k" and "k \<le> 3" and "k < length es0"
    and "loads_into_transient_slots ab"
    and sw: "command_switch hdr ab command es0 k w = Inr (response, es, n, w4)"
  shows "n \<le> length es
       \<and> (\<forall>j<n. \<exists>p. es ! j = Ptr p
             \<and> drop_bit HR_SHIFT (e_phandle (w_heap w4 p)) = TPM_HT_TRANSIENT)"
proof -
  obtain rc0 es1 n1 c1 w1 resp w3 where
    l: "load_contexts_loop ab (cmd_connection command) (cmd_handles command) 0
       (unat (cmd_handle_count command)) (TSS2_RC_SUCCESS, es0, 0, command, w)
       = Inr (rc0, es1, n1, c1, w1)"
    and len: "length es1 = length es0" and n1: "n1 \<le> unat (cmd_handle_count command)"
    and init: "\<forall>j<n1. \<exists>p. es1 ! j = Ptr p"
    and h3: "w_heap w3 = w_heap w1"
    and eq: "command_switch hdr ab command es0 k w =
      (case virtualize_response resp es1 n1 w3 of
         Inl f \<Rightarrow> Inl f
       | Inr (response1, es2, n2, w4) \<Rightarrow> Inr (Some response1, es2, n2, w4))"
    by (rule command_switch_default [OF assms(1-4), of ab w hdr])
  have "\<forall>j<n1. \<exists>p. es1 ! j = Ptr p
      \<and> drop_bit HR_SHIFT (e_phandle (w_heap w1 p)) = TPM_HT_TRANSIENT"
    by (rule load_contexts_loop_transient [OF assms(5) l]) simp
  then have tr: "\<forall>j<n1. \<exists>p. es1 ! j = Ptr p
      \<and> drop_bit HR_SHIFT (e_phandle (w_heap w3 p)) = TPM_HT_TRANSIENT"
    by (simp add: h3)
  from sw eq obtain response1 where
    v: "virtualize_response resp es1 n1 w3 = Inr (response1, es, n, w4)"
    by (auto split: sum.splits)
  have lt: "n1 < length es1" using n1 len assms(2-4) by simp
  have "n \<le> length es"
    using v lt by (auto simp: virtualize_response_def split: if_splits sum.splits prod.splits)
  with virtualize_response_transient [OF lt v tr] show ?thesis by simp
qed

text \<open>
  The claim is that after every command that is not \<^verbatim>\<open>FlushContext\<close> every touched
  entry has the physical handle 0 unless its save failed. Two inputs on which this is
  not so. On the first the context load of the only handle succeeds with the handle
  \<^verbatim>\<open>0x01000007\<close>: the entry is recorded, the loop of lines 429-432 visits it, and
  \<^verbatim>\<open>resource_manager_flushsave_context\<close> skips it because the type byte of its
  physical handle is not transient (line 178). The command completes, the entry keeps
  the physical handle \<^verbatim>\<open>0x01000007\<close>, no \<^verbatim>\<open>context_saveflush\<close> was called and
  nothing was logged. On the second the command reports four handles:
  \<^verbatim>\<open>resource_manager_load_contexts\<close> returns in line 121 and leaves \<open>entry_count\<close>
  at 3, and the loop reads elements of \<open>entries\<close> that were never written.
\<close>

theorem eviction_needs_transient_loads:
  "(\<exists>w2. resource_manager_process_tpm2_command example_headers stray_broker
            (example_command 0x173 1 0x80000000) (example_world 0 27 0x80000001) = Inr w2
        \<and> e_phandle (w_heap w2 0) = 0x01000007
        \<and> w_calls w2 = [ContextLoad [1, 2, 3],
              SendCommand (tpm2_command_set_handle (example_command 0x173 1 0x80000000)
                             0x01000007 0)]
        \<and> w_warnings w2 = [])
   \<and> resource_manager_process_tpm2_command example_headers (example_broker 0 True 0)
        (example_command 0x173 4 0x80000000) (example_world 0 27 0x80000001)
       = Inl Uninitialised"
  by (simp add: rm_defs const_defs example_defs stray_broker_def transient_numerals replicate_entries
      load_contexts_loop.simps flushsave_loop.simps Let_def)

text \<open>
  Claim C8, as amended. Let a command that is not \<^verbatim>\<open>FlushContext\<close>, passes the quota
  gate and has at most three handles reach line 423 (it is not aborted in line 226)
  with the response to enqueue (the response of the access broker, of whatever return
  code, or the one synthesized after a failed transmission), the entries recorded in
  \<open>entries\<close> below \<open>entry_count\<close>, and the world \<open>w1\<close>; and let the access broker
  keep its contract that a successful context load returns a transient handle. Then
  the command completes, and the loop of lines 429-432 has visited every entry
  recorded: its physical handle was transient, a \<^verbatim>\<open>context_saveflush\<close> of that
  handle was called, and when the command has completed its physical handle is 0
  unless a failed save of the handle it still has was logged. For any entry with a
  transient physical handle, a successful \<^verbatim>\<open>context_saveflush\<close> leaves the context
  it produced in the entry and sets the physical handle to 0.

  A command that the quota gate rejects returns before any entry is looked up, so it
  has no entries to evict.
\<close>

theorem eviction_after_every_command:
  assumes "cmd_code command \<noteq> TPM_CC_FlushContext"
    and "\<not> resource_manager_is_over_object_quota command w"
    and "unat (cmd_handle_count command) \<le> 3"
    and "loads_into_transient_slots ab"
    and "command_switch hdr ab command (replicate ENTRY_COUNT Uninit) (ENTRY_COUNT - 1) w
           = Inr (response, entries, entry_count, w1)"
  shows "(\<exists>w2 cs ws. resource_manager_process_tpm2_command hdr ab command w = Inr w2
           \<and> w_calls w2 = w_calls w1 @ cs \<and> w_warnings w2 = w_warnings w1 @ ws
           \<and> (\<forall>i<entry_count. \<exists>p. entries ! i = Ptr p
                 \<and> drop_bit HR_SHIFT (e_phandle (w_heap w1 p)) = TPM_HT_TRANSIENT
                 \<and> ContextSaveFlush (e_phandle (w_heap w1 p)) \<in> set cs
                 \<and> (e_phandle (w_heap w2 p) = 0
                    \<or> (\<exists>rc. rc \<noteq> TSS2_RC_SUCCESS
                          \<and> WarnSaveFlushFailed (e_phandle (w_heap w2 p)) rc \<in> set ws))))
       \<and> (\<forall>p w0. drop_bit HR_SHIFT (e_phandle (w_heap w0 p)) = TPM_HT_TRANSIENT
             \<and> fst (fst (ab_context_saveflush ab (w_tpm w0) (e_phandle (w_heap w0 p))
                           (e_context (w_heap w0 p)))) = TSS2_RC_SUCCESS
           \<longrightarrow> e_phandle (w_heap (snd (resource_manager_flushsave_context ab p w0)) p) = 0
               \<and> e_context (w_heap (snd (resource_manager_flushsave_context ab p w0)) p)
                   = snd (fst (ab_context_saveflush ab (w_tpm w0) (e_phandle (w_heap w0 p))
                                 (e_context (w_heap w0 p))))
               \<and> w_calls (snd (resource_manager_flushsave_context ab p w0))
                   = w_calls w0 @ [ContextSaveFlush (e_phandle (w_heap w0 p))])"
proof -
  define E where "E = replicate ENTRY_COUNT Uninit"
  define k where "k = ENTRY_COUNT - 1"
  have k: "unat (cmd_handle_count command) \<le> k" "k \<le> 3" "k < length E"
    using assms(3) by (simp_all add: k_def E_def ENTRY_COUNT_def)
  have sw: "command_switch hdr ab command E k w = Inr (response, entries, entry_count, w1)"
    using assms(5) by (simp add: E_def k_def)
  from command_switch_transient [OF assms(1) k assms(4) sw]
  have n: "entry_count \<le> length entries"
    and tr: "\<forall>j<entry_count. \<exists>p. entries ! j = Ptr p
             \<and> drop_bit HR_SHIFT (e_phandle (w_heap w1 p)) = TPM_HT_TRANSIENT"
    by simp_all
  let ?w = "sink_enqueue response w1"
  have same: "w_heap ?w = w_heap w1" "w_calls ?w = w_calls w1" "w_warnings ?w = w_warnings w1"
    by (simp_all add: sink_enqueue_def)
  have pre: "\<forall>j<entry_count. \<exists>p. entries ! j = Ptr p
           \<and> (e_phandle (w_heap ?w p) = 0
              \<or> drop_bit HR_SHIFT (e_phandle (w_heap ?w p)) = TPM_HT_TRANSIENT)"
  proof (intro allI impI)
    fix j assume "j < entry_count"
    with tr obtain p where "entries ! j = Ptr p"
      "drop_bit HR_SHIFT (e_phandle (w_heap w1 p)) = TPM_HT_TRANSIENT" by blast
    then show "\<exists>p. entries ! j = Ptr p
           \<and> (e_phandle (w_heap ?w p) = 0
              \<or> drop_bit HR_SHIFT (e_phandle (w_heap ?w p)) = TPM_HT_TRANSIENT)"
      by (simp add: same(1))
  qed
  have "\<exists>w2 cs ws. flushsave_loop ab entries 0 entry_count ?w = Inr w2
     \<and> w_calls w2 = w_calls ?w @ cs \<and> w_warnings w2 = w_warnings ?w @ ws
     \<and> (\<forall>q. e_phandle (w_heap w2 q) = 0 \<or> e_phandle (w_heap w2 q) = e_phandle (w_heap ?w q))
     \<and> (\<forall>j. 0 \<le> j \<and> j < entry_count \<longrightarrow> (\<exists>p. entries ! j = Ptr p
           \<and> (drop_bit HR_SHIFT (e_phandle (w_heap ?w p)) = TPM_HT_TRANSIENT
                \<longrightarrow> ContextSaveFlush (e_phandle (w_heap ?w p)) \<in> set cs)
           \<and> (e_phandle (w_heap w2 p) = 0
              \<or> (\<exists>rc. rc \<noteq> TSS2_RC_SUCCESS
                    \<and> WarnSaveFlushFailed (e_phandle (w_heap w2 p)) rc \<in> set ws))))"
    by (rule flushsave_loop_evicts [OF n pre])
  then obtain w2 cs ws where big: "flushsave_loop ab entries 0 entry_count ?w = Inr w2
     \<and> w_calls w2 = w_calls ?w @ cs \<and> w_warnings w2 = w_warnings ?w @ ws
     \<and> (\<forall>q. e_phandle (w_heap w2 q) = 0 \<or> e_phandle (w_heap w2 q) = e_phandle (w_heap ?w q))
     \<and> (\<forall>j. 0 \<le> j \<and> j < entry_count \<longrightarrow> (\<exists>p. entries ! j = Ptr p
           \<and> (drop_bit HR_SHIFT (e_phandle (w_heap ?w p)) = TPM_HT_TRANSIENT
                \<longrightarrow> ContextSaveFlush (e_phandle (w_heap ?w p)) \<in> set cs)
           \<and> (e_phandle (w_heap w2 p) = 0
              \<or> (\<exists>rc. rc \<noteq> TSS2_RC_SUCCESS
                    \<and> WarnSaveFlushFailed (e_phandle (w_heap w2 p)) rc \<in> set ws))))"
    by (elim exE)
  then have loop: "flushsave_loop ab entries 0 entry_count ?w = Inr w2"
    and c: "w_calls w2 = w_calls ?w @ cs" and wn: "w_warnings w2 = w_warnings ?w @ ws"
    and fin: "\<forall>j. 0 \<le> j \<and> j < entry_count \<longrightarrow> (\<exists>p. entries ! j = Ptr p
           \<and> (drop_bit HR_SHIFT (e_phandle (w_heap ?w p)) = TPM_HT_TRANSIENT
                \<longrightarrow> ContextSaveFlush (e_phandle (w_heap ?w p)) \<in> set cs)
           \<and> (e_phandle (w_heap w2 p) = 0
              \<or> (\<exists>rc. rc \<noteq> TSS2_RC_SUCCESS
                    \<and> WarnSaveFlushFailed (e_phandle (w_heap w2 p)) rc \<in> set ws)))"
    by simp_all
  have proc: "resource_manager_process_tpm2_command hdr ab command w = Inr w2"
    using assms(2,5) loop by (simp add: resource_manager_process_tpm2_command_def)
  have each: "\<exists>p. entries ! i = Ptr p
                 \<and> drop_bit HR_SHIFT (e_phandle (w_heap w1 p)) = TPM_HT_TRANSIENT
                 \<and> ContextSaveFlush (e_phandle (w_heap w1 p)) \<in> set cs
                 \<and> (e_phandle (w_heap w2 p) = 0
                    \<or> (\<exists>rc. rc \<noteq> TSS2_RC_SUCCESS
                          \<and> WarnSaveFlushFailed (e_phandle (w_heap w2 p)) rc \<in> set ws))"
    if i: "i < entry_count" for i
  proof -
    from tr i obtain p where p: "entries ! i = Ptr p"
      and t: "drop_bit HR_SHIFT (e_phandle (w_heap w1 p)) = TPM_HT_TRANSIENT" by blast
    from i have "0 \<le> i \<and> i < entry_count" by simp
    with fin obtain q where q: "entries ! i = Ptr q"
      and cq: "drop_bit HR_SHIFT (e_phandle (w_heap ?w q)) = TPM_HT_TRANSIENT
                \<longrightarrow> ContextSaveFlush (e_phandle (w_heap ?w q)) \<in> set cs"
      and fq: "e_phandle (w_heap w2 q) = 0
              \<or> (\<exists>rc. rc \<noteq> TSS2_RC_SUCCESS
                    \<and> WarnSaveFlushFailed (e_phandle (w_heap w2 q)) rc \<in> set ws)"
      by blast
    from p q have "q = p" by simp
    with p t cq fq same(1) show ?thesis by simp
  qed
  have step: "e_phandle (w_heap (snd (resource_manager_flushsave_context ab p w0)) p) = 0
               \<and> e_context (w_heap (snd (resource_manager_flushsave_context ab p w0)) p)
                   = snd (fst (ab_context_saveflush ab (w_tpm w0) (e_phandle (w_heap w0 p))
                                 (e_context (w_heap w0 p))))
               \<and> w_calls (snd (resource_manager_flushsave_context ab p w0))
                   = w_calls w0 @ [ContextSaveFlush (e_phandle (w_heap w0 p))]"
    if a: "drop_bit HR_SHIFT (e_phandle (w_heap w0 p)) = TPM_HT_TRANSIENT
             \<and> fst (fst (ab_context_saveflush ab (w_tpm w0) (e_phandle (w_heap w0 p))
                           (e_context (w_heap w0 p)))) = TSS2_RC_SUCCESS" for p w0
  proof -
    let ?x = "ab_context_saveflush ab (w_tpm w0) (e_phandle (w_heap w0 p)) (e_context (w_heap w0 p))"
    have x: "?x = ((TSS2_RC_SUCCESS, snd (fst ?x)), snd ?x)"
      using a by (metis prod.collapse)
    from a have t: "drop_bit HR_SHIFT (e_phandle (w_heap w0 p)) = TPM_HT_TRANSIENT" by simp
    from flushsave_context_transient(2,3) [OF t x] show ?thesis by simp
  qed
  from proc c wn each same have first: "\<exists>w2 cs ws. resource_manager_process_tpm2_command hdr ab command w = Inr w2
           \<and> w_calls w2 = w_calls w1 @ cs \<and> w_warnings w2 = w_warnings w1 @ ws
           \<and> (\<forall>i<entry_count. \<exists>p. entries ! i = Ptr p
                 \<and> drop_bit HR_SHIFT (e_phandle (w_heap w1 p)) = TPM_HT_TRANSIENT
                 \<and> ContextSaveFlush (e_phandle (w_heap w1 p)) \<in> set cs
                 \<and> (e_phandle (w_heap w2 p) = 0
                    \<or> (\<exists>rc. rc \<noteq> TSS2_RC_SUCCESS
                          \<and> WarnSaveFlushFailed (e_phandle (w_heap w2 p)) rc \<in> set ws)))"
    by (intro exI [of _ w2] exI [of _ cs] exI [of _ ws]) simp
  show ?thesis
  proof (rule conjI)
    show "\<exists>w2 cs ws. resource_manager_process_tpm2_command hdr ab command w = Inr w2
           \<and> w_calls w2 = w_calls w1 @ cs \<and> w_warnings w2 = w_warnings w1 @ ws
           \<and> (\<forall>i<entry_count. \<exists>p. entries ! i = Ptr p
                 \<and> drop_bit HR_SHIFT (e_phandle (w_heap w1 p)) = TPM_HT_TRANSIENT
                 \<and> ContextSaveFlush (e_phandle (w_heap w1 p)) \<in> set cs
                 \<and> (e_phandle (w_heap w2 p) = 0
                    \<or> (\<exists>rc. rc \<noteq> TSS2_RC_SUCCESS
                          \<and> WarnSaveFlushFailed (e_phandle (w_heap w2 p)) rc \<in> set ws)))"
      by (rule first)
  next
    show "\<forall>p w0. drop_bit HR_SHIFT (e_phandle (w_heap w0 p)) = TPM_HT_TRANSIENT
             \<and> fst (fst (ab_context_saveflush ab (w_tpm w0) (e_phandle (w_heap w0 p))
                           (e_context (w_heap w0 p)))) = TSS2_RC_SUCCESS
           \<longrightarrow> e_phandle (w_heap (snd (resource_manager_flushsave_context ab p w0)) p) = 0
               \<and> e_context (w_heap (snd (resource_manager_flushsave_context ab p w0)) p)
                   = snd (fst (ab_context_saveflush ab (w_tpm w0) (e_phandle (w_heap w0 p))
                                 (e_context (w_heap w0 p))))
               \<and> w_calls (snd (resource_manager_flushsave_context ab p w0))
                   = w_calls w0 @ [ContextSaveFlush (e_phandle (w_heap w0 p))]"
      by (intro allI impI) (rule step)
  qed
qed

theorem eviction_after_every_command_witness:
  "cmd_code (example_command 0x173 1 0x80000000) \<noteq> TPM_CC_FlushContext
   \<and> \<not> resource_manager_is_over_object_quota (example_command 0x173 1 0x80000000)
         (example_world 0 27 0x80000001)
   \<and> unat (cmd_handle_count (example_command 0x173 1 0x80000000)) \<le> 3
   \<and> loads_into_transient_slots (example_broker 0 True 0)
   \<and> (\<exists>response w1.
         command_switch example_headers (example_broker 0 True 0) (example_command 0x173 1 0x80000000)
           (replicate ENTRY_COUNT Uninit) (ENTRY_COUNT - 1) (example_world 0 27 0x80000001)
           = Inr (response, [Ptr 0, Uninit, Uninit, Uninit], 1, w1)
       \<and> e_phandle (w_heap w1 0) = 0x80FFFFFE
       \<and> (\<exists>w2 cs ws.
             resource_manager_process_tpm2_command example_headers (example_broker 0 True 0)
               (example_command 0x173 1 0x80000000) (example_world 0 27 0x80000001) = Inr w2
           \<and> w_calls w2 = w_calls w1 @ cs \<and> w_warnings w2 = w_warnings w1 @ ws
           \<and> ContextSaveFlush 0x80FFFFFE \<in> set cs
           \<and> (e_phandle (w_heap w2 0) = 0
              \<or> (\<exists>rc. rc \<noteq> TSS2_RC_SUCCESS
                    \<and> WarnSaveFlushFailed (e_phandle (w_heap w2 0)) rc \<in> set ws))))"
proof -
  let ?B = "example_broker 0 True 0"
  let ?C = "example_command 0x173 1 0x80000000"
  let ?W = "example_world 0 27 0x80000001"
  have h1: "cmd_code ?C \<noteq> TPM_CC_FlushContext"
    by (simp add: example_command_def TPM_CC_FlushContext_def)
  have h2: "\<not> resource_manager_is_over_object_quota ?C ?W"
    by (simp add: example_command_def resource_manager_is_over_object_quota_def const_defs)
  have h3: "unat (cmd_handle_count ?C) \<le> 3"
    by (simp add: example_command_def)
  have h4: "loads_into_transient_slots ?B"
    by (simp add: loads_into_transient_slots_def example_broker_def transient_numerals)
  have "\<exists>response w1. command_switch example_headers ?B ?C (replicate ENTRY_COUNT Uninit) (ENTRY_COUNT - 1) ?W
           = Inr (response, [Ptr 0, Uninit, Uninit, Uninit], 1, w1)
       \<and> e_phandle (w_heap w1 0) = 0x80FFFFFE"
    by (simp add: rm_defs const_defs example_defs transient_numerals replicate_entries
        load_contexts_loop.simps Let_def)
  then obtain response w1 where
    sw: "command_switch example_headers ?B ?C (replicate ENTRY_COUNT Uninit) (ENTRY_COUNT - 1) ?W
           = Inr (response, [Ptr 0, Uninit, Uninit, Uninit], 1, w1)"
    and ph: "e_phandle (w_heap w1 0) = 0x80FFFFFE"
    by (elim exE conjE)
  from eviction_after_every_command [OF h1 h2 h3 h4 sw]
  have "\<exists>w2 cs ws. resource_manager_process_tpm2_command example_headers ?B ?C ?W = Inr w2
           \<and> w_calls w2 = w_calls w1 @ cs \<and> w_warnings w2 = w_warnings w1 @ ws
           \<and> (\<forall>i<1. \<exists>p. [Ptr 0, Uninit, Uninit, Uninit] ! i = Ptr p
                 \<and> drop_bit HR_SHIFT (e_phandle (w_heap w1 p)) = TPM_HT_TRANSIENT
                 \<and> ContextSaveFlush (e_phandle (w_heap w1 p)) \<in> set cs
                 \<and> (e_phandle (w_heap w2 p) = 0
                    \<or> (\<exists>rc. rc \<noteq> TSS2_RC_SUCCESS
                          \<and> WarnSaveFlushFailed (e_phandle (w_heap w2 p)) rc \<in> set ws)))"
    by (rule conjunct1)
  then have "\<exists>w2 cs ws. resource_manager_process_tpm2_command example_headers ?B ?C ?W = Inr w2
           \<and> w_calls w2 = w_calls w1 @ cs \<and> w_warnings w2 = w_warnings w1 @ ws
           \<and> ContextSaveFlush 0x80FFFFFE \<in> set cs
           \<and> (e_phandle (w_heap w2 0) = 0
              \<or> (\<exists>rc. rc \<noteq> TSS2_RC_SUCCESS
                    \<and> WarnSaveFlushFailed (e_phandle (w_heap w2 0)) rc \<in> set ws))"
    by (auto simp: ph)
  with h1 h2 h3 h4 sw ph show ?thesis by blast
qed

subsection \<open>One response for every command\<close>

text \<open>
  Claim C9. The claim is that every command puts exactly one response on the sink,
  also when the access broker fails. For a \<^verbatim>\<open>FlushContext\<close> command on a handle that
  is not transient the code does not do this: \<^verbatim>\<open>resource_manager_flush_context\<close>
  returns the pointer of \<^verbatim>\<open>access_broker_send_command\<close> as it is (line 311), and
  line 423 hands it to \<^verbatim>\<open>sink_enqueue\<close>. Only the \<^verbatim>\<open>default\<close> case replaces a null
  pointer by a synthesized response (lines 408-411). On the input below the
  transmission fails, and the object passed to \<^verbatim>\<open>sink_enqueue\<close> is the null pointer:
  no response is enqueued.
\<close>

theorem flush_null_response_enqueued:
  "resource_manager_process_tpm2_command example_headers (example_broker 0 False 0)
     (example_command TPM_CC_FlushContext 0 0x03000000) (example_world 0 27 0x80000001) =
   Inr ((example_world 0 27 0x80000001)
          \<lparr>w_tpm := 1, w_sink := [None],
           w_calls := [SendCommand (example_command TPM_CC_FlushContext 0 0x03000000)]\<rparr>)"
  by (simp add: rm_defs const_defs example_defs transient_numerals
      flushsave_loop.simps Let_def)

end
